theory Spec2Isabelle
  imports Complex_Main
begin

section \<open>Numbers of a column\<close>

text \<open>
  Every column of the data frame holds 64-bit floating-point numbers. The model keeps the
  special values the program depends on (the missing value NaN and the two infinities
  that a division by zero produces) and computes on the finite values with exact real
  arithmetic: rounding, overflow and the sign of zero are left out. Integer columns
  (\<open>Signal\<close>) are held as finite values of the same type.
\<close>

datatype fval = Fin real | PInf | NInf | NaN

fun fneg :: "fval \<Rightarrow> fval" where
  "fneg (Fin a) = Fin (- a)"
| "fneg PInf = NInf"
| "fneg NInf = PInf"
| "fneg NaN = NaN"

fun fadd :: "fval \<Rightarrow> fval \<Rightarrow> fval" where
  "fadd NaN _ = NaN"
| "fadd _ NaN = NaN"
| "fadd (Fin a) (Fin b) = Fin (a + b)"
| "fadd PInf NInf = NaN"
| "fadd NInf PInf = NaN"
| "fadd PInf _ = PInf"
| "fadd _ PInf = PInf"
| "fadd NInf _ = NInf"
| "fadd _ NInf = NInf"

definition fsub :: "fval \<Rightarrow> fval \<Rightarrow> fval" where
  "fsub a b = fadd a (fneg b)"

fun fmul :: "fval \<Rightarrow> fval \<Rightarrow> fval" where
  "fmul NaN _ = NaN"
| "fmul _ NaN = NaN"
| "fmul (Fin a) (Fin b) = Fin (a * b)"
| "fmul (Fin a) PInf = (if a = 0 then NaN else if 0 < a then PInf else NInf)"
| "fmul (Fin a) NInf = (if a = 0 then NaN else if 0 < a then NInf else PInf)"
| "fmul PInf (Fin b) = (if b = 0 then NaN else if 0 < b then PInf else NInf)"
| "fmul NInf (Fin b) = (if b = 0 then NaN else if 0 < b then NInf else PInf)"
| "fmul PInf PInf = PInf"
| "fmul PInf NInf = NInf"
| "fmul NInf PInf = NInf"
| "fmul NInf NInf = PInf"

fun fdiv :: "fval \<Rightarrow> fval \<Rightarrow> fval" where
  "fdiv NaN _ = NaN"
| "fdiv _ NaN = NaN"
| "fdiv (Fin a) (Fin b) =
     (if b \<noteq> 0 then Fin (a / b)
      else if 0 < a then PInf else if a < 0 then NInf else NaN)"
| "fdiv (Fin a) PInf = Fin 0"
| "fdiv (Fin a) NInf = Fin 0"
| "fdiv PInf (Fin b) = (if b < 0 then NInf else PInf)"
| "fdiv NInf (Fin b) = (if b < 0 then PInf else NInf)"
| "fdiv PInf PInf = NaN"
| "fdiv PInf NInf = NaN"
| "fdiv NInf PInf = NaN"
| "fdiv NInf NInf = NaN"

fun fsqrt :: "fval \<Rightarrow> fval" where
  "fsqrt (Fin a) = (if 0 \<le> a then Fin (sqrt a) else NaN)"
| "fsqrt PInf = PInf"
| "fsqrt NInf = NaN"
| "fsqrt NaN = NaN"

text \<open>Comparisons: every comparison with NaN is false.\<close>

fun flt :: "fval \<Rightarrow> fval \<Rightarrow> bool" where
  "flt (Fin a) (Fin b) = (a < b)"
| "flt (Fin a) PInf = True"
| "flt NInf (Fin b) = True"
| "flt NInf PInf = True"
| "flt _ _ = False"

definition fle :: "fval \<Rightarrow> fval \<Rightarrow> bool" where
  "fle a b = (flt a b \<or> (a = b \<and> a \<noteq> NaN))"

definition fmax :: "fval \<Rightarrow> fval \<Rightarrow> fval" where
  "fmax a b = (if flt a b then b else a)"

definition fmin :: "fval \<Rightarrow> fval \<Rightarrow> fval" where
  "fmin a b = (if flt b a then b else a)"

section \<open>Columns: the pandas operations the program calls\<close>

type_synonym column = "fval list"

datatype error = KeyError | ValueError | IndexError

definition notna :: "column \<Rightarrow> column" where
  "notna xs = filter (\<lambda>x. x \<noteq> NaN) xs"

definition fsum :: "column \<Rightarrow> fval" where
  "fsum xs = foldl fadd (Fin 0) xs"

text \<open>\<open>s.shift(1)\<close>: every value moves one bar later, the first bar has no value.\<close>

definition shift1 :: "column \<Rightarrow> column" where
  "shift1 xs = (case xs of [] \<Rightarrow> [] | _ # _ \<Rightarrow> NaN # butlast xs)"

text \<open>\<open>s.diff()\<close>: \<open>s - s.shift(1)\<close>.\<close>

definition diff_col :: "column \<Rightarrow> column" where
  "diff_col xs = map2 fsub xs (shift1 xs)"

text \<open>\<open>s.pct_change()\<close> on a column without missing values: \<open>s / s.shift(1) - 1\<close>.\<close>

definition pct_change :: "column \<Rightarrow> column" where
  "pct_change xs = map (\<lambda>q. fsub q (Fin 1)) (map2 fdiv xs (shift1 xs))"

text \<open>
  \<open>s.rolling(window=w).mean()\<close>: the window of bar \<open>t\<close> holds the last \<open>w\<close> bars up to
  \<open>t\<close> inclusive (fewer at the start); the mean is taken over the values present in it and
  needs \<open>min_periods = w\<close> of them, and at least one. The constructor of the rolling object
  refuses a negative window (\<open>window must be an integer 0 or greater\<close>).
\<close>

definition window :: "nat \<Rightarrow> column \<Rightarrow> nat \<Rightarrow> column" where
  "window w xs t = drop (Suc t - w) (take (Suc t) xs)"

definition window_mean :: "nat \<Rightarrow> column \<Rightarrow> fval" where
  "window_mean minp win =
     (let obs = notna win
      in if minp \<le> length obs \<and> 0 < length obs
         then fdiv (fsum obs) (Fin (real (length obs))) else NaN)"

definition roll_mean :: "nat \<Rightarrow> column \<Rightarrow> column" where
  "roll_mean w xs = map (\<lambda>t. window_mean w (window w xs t)) [0..<length xs]"

definition rolling_mean :: "int \<Rightarrow> column \<Rightarrow> error + column" where
  "rolling_mean w xs = (if w < 0 then Inl ValueError else Inr (roll_mean (nat w) xs))"

text \<open>
  \<open>s.ewm(span=n).mean()\<close> with the defaults \<open>adjust=True\<close>, \<open>ignore_na=False\<close>,
  \<open>min_periods=0\<close>. The span is checked first (\<open>span must satisfy: span >= 1\<close>) and gives
  \<open>alpha = 2 / (span + 1)\<close>. The loop carries the running average \<open>weighted\<close> and the
  total weight \<open>old_wt\<close> of the bars seen so far: at each bar the old weight decays by
  \<open>1 - alpha\<close>, the new value enters with weight 1, and the sum is renormalised.
\<close>

fun ewm_loop :: "real \<Rightarrow> fval \<Rightarrow> real \<Rightarrow> column \<Rightarrow> column" where
  "ewm_loop alpha weighted old_wt [] = []"
| "ewm_loop alpha weighted old_wt (cur # xs) =
     (if weighted \<noteq> NaN then
        (let old_wt1 = old_wt * (1 - alpha)
         in if cur \<noteq> NaN then
              (let weighted1 =
                     (if weighted \<noteq> cur
                      then fdiv (fadd (fmul (Fin old_wt1) weighted) (fmul (Fin 1) cur))
                                (Fin (old_wt1 + 1))
                      else weighted)
               in weighted1 # ewm_loop alpha weighted1 (old_wt1 + 1) xs)
            else weighted # ewm_loop alpha weighted old_wt1 xs)
      else if cur \<noteq> NaN then cur # ewm_loop alpha cur old_wt xs
      else NaN # ewm_loop alpha weighted old_wt xs)"

definition span_alpha :: "int \<Rightarrow> real" where
  "span_alpha n = 2 / (real_of_int n + 1)"

definition ewm_run :: "real \<Rightarrow> column \<Rightarrow> column" where
  "ewm_run alpha xs = (case xs of [] \<Rightarrow> [] | x # rest \<Rightarrow> x # ewm_loop alpha x 1 rest)"

definition ewm_mean :: "int \<Rightarrow> column \<Rightarrow> error + column" where
  "ewm_mean n xs = (if n < 1 then Inl ValueError else Inr (ewm_run (span_alpha n) xs))"

text \<open>\<open>s.cumprod()\<close>: a missing value stays missing and does not enter the product.\<close>

fun cumprod_from :: "fval \<Rightarrow> column \<Rightarrow> column" where
  "cumprod_from acc [] = []"
| "cumprod_from acc (x # xs) =
     (if x = NaN then NaN # cumprod_from acc xs
      else fmul acc x # cumprod_from (fmul acc x) xs)"

definition cumprod :: "column \<Rightarrow> column" where
  "cumprod xs = cumprod_from (Fin 1) xs"

text \<open>
  \<open>s.expanding().max()\<close>: the largest value present so far (\<open>min_periods = 1\<close>), no value
  before the first one. The accumulator is NaN as long as nothing was seen.
\<close>

fun expanding_max_from :: "fval \<Rightarrow> column \<Rightarrow> column" where
  "expanding_max_from acc [] = []"
| "expanding_max_from acc (x # xs) =
     (let acc1 = (if x = NaN then acc else if acc = NaN then x else fmax acc x)
      in acc1 # expanding_max_from acc1 xs)"

definition expanding_max :: "column \<Rightarrow> column" where
  "expanding_max xs = expanding_max_from NaN xs"

text \<open>\<open>s.min()\<close>, \<open>s.mean()\<close>, \<open>s.std()\<close> skip the missing values; \<open>std\<close> divides by \<open>n - 1\<close>.\<close>

definition series_min :: "column \<Rightarrow> fval" where
  "series_min xs = (case notna xs of [] \<Rightarrow> NaN | y # ys \<Rightarrow> foldl fmin y ys)"

definition series_mean :: "column \<Rightarrow> fval" where
  "series_mean xs =
     (let obs = notna xs
      in if obs = [] then NaN else fdiv (fsum obs) (Fin (real (length obs))))"

definition series_std :: "column \<Rightarrow> fval" where
  "series_std xs =
     (let obs = notna xs; m = series_mean xs
      in if length obs \<le> 1 then NaN
         else fsqrt (fdiv (fsum (map (\<lambda>x. fmul (fsub x m) (fsub x m)) obs))
                          (Fin (real (length obs - 1)))))"

text \<open>\<open>s.iloc[-1]\<close>: the last value; IndexError on an empty column.\<close>

definition iloc_last :: "column \<Rightarrow> error + fval" where
  "iloc_last xs = (if xs = [] then Inl IndexError else Inr (last xs))"

text \<open>\<open>s.where(cond, 0)\<close> and \<open>data.loc[mask, col] = v\<close>, bar by bar.\<close>

definition where_else0 :: "(fval \<Rightarrow> bool) \<Rightarrow> column \<Rightarrow> column" where
  "where_else0 cond xs = map (\<lambda>x. if cond x then x else Fin 0) xs"

definition loc_assign :: "bool list \<Rightarrow> fval \<Rightarrow> column \<Rightarrow> column" where
  "loc_assign msk v xs = map2 (\<lambda>m x. if m then v else x) msk xs"

section \<open>Data frames and the store of objects\<close>

text \<open>
  A data frame has a number of rows and named columns. Frames are mutable objects: the
  store holds every frame that exists, a reference is its position in the store, and
  \<open>data.copy()\<close> makes a new frame at a new reference.
\<close>

record frame =
  nrows :: nat
  cols :: "string \<Rightarrow> column option"

type_synonym store = "frame list"

definition df_copy :: "store \<Rightarrow> nat \<Rightarrow> nat \<times> store" where
  "df_copy h r = (length h, h @ [h ! r])"

definition df_get :: "store \<Rightarrow> nat \<Rightarrow> string \<Rightarrow> error + column" where
  "df_get h r c = (case cols (h ! r) c of None \<Rightarrow> Inl KeyError | Some xs \<Rightarrow> Inr xs)"

definition df_set :: "store \<Rightarrow> nat \<Rightarrow> string \<Rightarrow> column \<Rightarrow> store" where
  "df_set h r c xs = h[r := (h ! r)\<lparr>cols := (cols (h ! r))(c \<mapsto> xs)\<rparr>]"

definition df_set_scalar :: "store \<Rightarrow> nat \<Rightarrow> string \<Rightarrow> fval \<Rightarrow> store" where
  "df_set_scalar h r c v = df_set h r c (replicate (nrows (h ! r)) v)"

section \<open>The strategy object\<close>

record strategy =
  short_window :: int
  long_window :: int
  signals :: "nat option"
  portfolio_value :: "column option"

definition init :: "int \<Rightarrow> int \<Rightarrow> error + strategy" where
  "init sw lw =
     Inr \<lparr>short_window = sw, long_window = lw, signals = None, portfolio_value = None\<rparr>"

text \<open>
  An exception ends the call: \<open>ebind m f\<close> passes the error of \<open>m\<close> on and otherwise
  continues with its value.
\<close>

definition ebind :: "error + 'a \<Rightarrow> ('a \<Rightarrow> error + 'b) \<Rightarrow> error + 'b" where
  "ebind m f = (case m of Inl e \<Rightarrow> Inl e | Inr x \<Rightarrow> f x)"

subsection \<open>Indicators\<close>

definition calculate_moving_averages :: "strategy \<Rightarrow> store \<Rightarrow> nat \<Rightarrow> error + nat \<times> store" where
  "calculate_moving_averages self h data0 =
     (let (data, h1) = df_copy h data0 in
      ebind (df_get h1 data ''Close'') (\<lambda>close1.
      ebind (rolling_mean (short_window self) close1) (\<lambda>sma_s.
      (let h2 = df_set h1 data ''SMA_short'' sma_s in
      ebind (df_get h2 data ''Close'') (\<lambda>close2.
      ebind (rolling_mean (long_window self) close2) (\<lambda>sma_l.
      (let h3 = df_set h2 data ''SMA_long'' sma_l in
      Inr (data, h3))))))))"

text \<open>The local series \<open>delta\<close>, \<open>gain\<close>, \<open>loss\<close> and \<open>rs\<close> of \<open>calculate_rsi\<close>.\<close>

definition rsi_gain :: "int \<Rightarrow> column \<Rightarrow> error + column" where
  "rsi_gain period close = rolling_mean period (where_else0 (\<lambda>d. flt (Fin 0) d) (diff_col close))"

definition rsi_loss :: "int \<Rightarrow> column \<Rightarrow> error + column" where
  "rsi_loss period close =
     rolling_mean period (map fneg (where_else0 (\<lambda>d. flt d (Fin 0)) (diff_col close)))"

definition rsi_of :: "fval \<Rightarrow> fval \<Rightarrow> fval" where
  "rsi_of gain loss = fsub (Fin 100) (fdiv (Fin 100) (fadd (Fin 1) (fdiv gain loss)))"

definition calculate_rsi :: "strategy \<Rightarrow> store \<Rightarrow> nat \<Rightarrow> int \<Rightarrow> error + nat \<times> store" where
  "calculate_rsi self h data0 period =
     (let (data, h1) = df_copy h data0 in
      ebind (df_get h1 data ''Close'') (\<lambda>close.
      ebind (rsi_gain period close) (\<lambda>gain.
      ebind (rsi_loss period close) (\<lambda>loss.
      Inr (data, df_set h1 data ''RSI'' (map2 rsi_of gain loss))))))"

text \<open>
  \<open>s.rolling(window=w).std()\<close>: the sample standard deviation (divisor \<open>n - 1\<close>) of the
  values present in the window, under the same \<open>min_periods\<close> rule.
\<close>

definition window_std :: "nat \<Rightarrow> column \<Rightarrow> fval" where
  "window_std minp win =
     (let obs = notna win; m = fdiv (fsum obs) (Fin (real (length obs)))
      in if minp \<le> length obs \<and> 1 < length obs
         then fsqrt (fdiv (fsum (map (\<lambda>x. fmul (fsub x m) (fsub x m)) obs))
                          (Fin (real (length obs - 1))))
         else NaN)"

definition rolling_std :: "int \<Rightarrow> column \<Rightarrow> error + column" where
  "rolling_std w xs =
     (if w < 0 then Inl ValueError
      else Inr (map (\<lambda>t. window_std (nat w) (window (nat w) xs t)) [0..<length xs]))"

definition calculate_bollinger_bands ::
  "strategy \<Rightarrow> store \<Rightarrow> nat \<Rightarrow> int \<Rightarrow> real \<Rightarrow> error + nat \<times> store" where
  "calculate_bollinger_bands self h data0 period std_dev =
     (let (data, h1) = df_copy h data0 in
      ebind (df_get h1 data ''Close'') (\<lambda>close1.
      ebind (rolling_mean period close1) (\<lambda>mid.
      (let h2 = df_set h1 data ''BB_middle'' mid in
      ebind (df_get h2 data ''Close'') (\<lambda>close2.
      ebind (rolling_std period close2) (\<lambda>bb_std.
      ebind (df_get h2 data ''BB_middle'') (\<lambda>mid1.
      (let h3 = df_set h2 data ''BB_upper''
                  (map2 fadd mid1 (map (\<lambda>x. fmul x (Fin std_dev)) bb_std)) in
      ebind (df_get h3 data ''BB_middle'') (\<lambda>mid2.
      (let h4 = df_set h3 data ''BB_lower''
                  (map2 fsub mid2 (map (\<lambda>x. fmul x (Fin std_dev)) bb_std)) in
      Inr (data, h4)))))))))))"

definition calculate_macd ::
  "strategy \<Rightarrow> store \<Rightarrow> nat \<Rightarrow> int \<Rightarrow> int \<Rightarrow> int \<Rightarrow> error + nat \<times> store" where
  "calculate_macd self h data0 fast slow signal =
     (let (data, h1) = df_copy h data0 in
      ebind (df_get h1 data ''Close'') (\<lambda>close1.
      ebind (ewm_mean fast close1) (\<lambda>ema_f.
      (let h2 = df_set h1 data ''EMA_fast'' ema_f in
      ebind (df_get h2 data ''Close'') (\<lambda>close2.
      ebind (ewm_mean slow close2) (\<lambda>ema_s.
      (let h3 = df_set h2 data ''EMA_slow'' ema_s in
      ebind (df_get h3 data ''EMA_fast'') (\<lambda>ef.
      ebind (df_get h3 data ''EMA_slow'') (\<lambda>es.
      (let h4 = df_set h3 data ''MACD'' (map2 fsub ef es) in
      ebind (df_get h4 data ''MACD'') (\<lambda>macd1.
      ebind (ewm_mean signal macd1) (\<lambda>sl.
      (let h5 = df_set h4 data ''Signal_line'' sl in
      ebind (df_get h5 data ''MACD'') (\<lambda>macd2.
      ebind (df_get h5 data ''Signal_line'') (\<lambda>sl2.
      Inr (data, df_set h5 data ''MACD_hist'' (map2 fsub macd2 sl2)))))))))))))))))"

subsection \<open>Signals\<close>

definition generate_signals ::
  "strategy \<Rightarrow> store \<Rightarrow> nat \<Rightarrow> error + strategy \<times> nat \<times> store" where
  "generate_signals self h data0 =
     (let (data, h1) = df_copy h data0;
          h2 = df_set_scalar h1 data ''Signal'' (Fin 0);
          h3 = df_set_scalar h2 data ''Position'' (Fin 0) in
      ebind (df_get h3 data ''SMA_short'') (\<lambda>s1.
      ebind (df_get h3 data ''SMA_long'') (\<lambda>l1.
      ebind (df_get h3 data ''Signal'') (\<lambda>sig0.
      (let h4 = df_set h3 data ''Signal''
                  (loc_assign (map2 (\<lambda>s l. flt l s) s1 l1) (Fin 1) sig0) in
      ebind (df_get h4 data ''SMA_short'') (\<lambda>s2.
      ebind (df_get h4 data ''SMA_long'') (\<lambda>l2.
      ebind (df_get h4 data ''Signal'') (\<lambda>sig1.
      (let h5 = df_set h4 data ''Signal''
                  (loc_assign (map2 (\<lambda>s l. fle s l) s2 l2) (Fin (- 1)) sig1) in
      ebind (df_get h5 data ''Signal'') (\<lambda>sig2.
      (let h6 = df_set h5 data ''Position'' (diff_col sig2) in
      Inr (self\<lparr>signals := Some data\<rparr>, data, h6))))))))))))"

subsection \<open>Backtest\<close>

record results =
  total_return :: fval
  annual_return :: fval
  annual_volatility :: fval
  sharpe_ratio :: fval
  max_drawdown :: fval
  final_portfolio_value :: fval

definition drawdown_col :: "column \<Rightarrow> column" where
  "drawdown_col pv = (let cummax = expanding_max pv in map2 fdiv (map2 fsub pv cummax) cummax)"

definition metrics :: "real \<Rightarrow> column \<Rightarrow> column \<Rightarrow> fval \<Rightarrow> results" where
  "metrics initial_capital sr pv final =
     (let total = fdiv (fsub final (Fin initial_capital)) (Fin initial_capital);
          annual = fmul (series_mean sr) (Fin 252);
          vol = fmul (series_std sr) (Fin (sqrt 252));
          sharpe = (if flt (Fin 0) vol then fdiv annual vol else Fin 0);
          mdd = series_min (drawdown_col pv)
      in \<lparr>total_return = total, annual_return = annual, annual_volatility = vol,
          sharpe_ratio = sharpe, max_drawdown = mdd, final_portfolio_value = final\<rparr>)"

definition backtest ::
  "strategy \<Rightarrow> store \<Rightarrow> nat \<Rightarrow> real \<Rightarrow> error + results \<times> strategy \<times> nat \<times> store" where
  "backtest self h data0 initial_capital =
     (let (data, h1) = df_copy h data0;
          h2 = df_set_scalar h1 data ''Portfolio_value'' (Fin initial_capital) in
      ebind (df_get h2 data ''Close'') (\<lambda>close.
      (let h3 = df_set h2 data ''Returns'' (pct_change close) in
      ebind (df_get h3 data ''Signal'') (\<lambda>sig.
      ebind (df_get h3 data ''Returns'') (\<lambda>ret.
      (let h4 = df_set h3 data ''Strategy_returns'' (map2 fmul (shift1 sig) ret) in
      ebind (df_get h4 data ''Strategy_returns'') (\<lambda>sr.
      (let h5 = df_set h4 data ''Cumulative_returns'' (cumprod (map (fadd (Fin 1)) sr)) in
      ebind (df_get h5 data ''Cumulative_returns'') (\<lambda>cr.
      (let h6 = df_set h5 data ''Portfolio_value'' (map (fmul (Fin initial_capital)) cr) in
      ebind (df_get h6 data ''Portfolio_value'') (\<lambda>pv.
      (let self1 = self\<lparr>portfolio_value := Some pv\<rparr> in
      ebind (iloc_last pv) (\<lambda>final.
      Inr (metrics initial_capital sr pv final, self1, data, h6))))))))))))))"

section \<open>The stages, bar by bar\<close>

text \<open>
  Names for what the stages compute, used to state their results. The two assignments of
  \<open>generate_signals\<close> seen at one bar: the later one (\<open>-1\<close>) wins where its mask holds,
  then the earlier one (\<open>1\<close>), and the initial \<open>0\<close> stays where both comparisons are false.
\<close>

definition signal_at :: "fval \<Rightarrow> fval \<Rightarrow> fval" where
  "signal_at s l = (if fle s l then Fin (- 1) else if flt l s then Fin 1 else Fin 0)"

text \<open>
  The strategy returns and the portfolio values as \<open>backtest\<close> computes them from the
  \<open>Signal\<close> and \<open>Close\<close> columns, and the table it leaves behind.
\<close>

definition strategy_returns :: "column \<Rightarrow> column \<Rightarrow> column" where
  "strategy_returns sg c = map2 fmul (shift1 sg) (pct_change c)"

definition portfolio_values :: "real \<Rightarrow> column \<Rightarrow> column \<Rightarrow> column" where
  "portfolio_values ic sg c =
     map (fmul (Fin ic)) (cumprod (map (fadd (Fin 1)) (strategy_returns sg c)))"

definition backtest_table :: "frame \<Rightarrow> real \<Rightarrow> column \<Rightarrow> column \<Rightarrow> frame" where
  "backtest_table f ic sg c = f\<lparr>cols := (cols f)
     (''Portfolio_value'' \<mapsto> replicate (nrows f) (Fin ic),
      ''Returns'' \<mapsto> pct_change c,
      ''Strategy_returns'' \<mapsto> strategy_returns sg c,
      ''Cumulative_returns'' \<mapsto> cumprod (map (fadd (Fin 1)) (strategy_returns sg c)),
      ''Portfolio_value'' \<mapsto> portfolio_values ic sg c)\<rparr>"

text \<open>
  The gain and the loss of each bar as \<open>calculate_rsi\<close> feeds them to the rolling mean: the
  rise, respectively the fall, of the closing price since the previous bar, and 0 at the
  first bar, where the difference is missing.
\<close>

definition bar_gain :: "real list \<Rightarrow> real list" where
  "bar_gain cs = map (\<lambda>t. if t = 0 then 0 else max (cs ! t - cs ! (t - 1)) 0) [0..<length cs]"

definition bar_loss :: "real list \<Rightarrow> real list" where
  "bar_loss cs = map (\<lambda>t. if t = 0 then 0 else max (- (cs ! t - cs ! (t - 1))) 0) [0..<length cs]"

section \<open>Observing a result\<close>

text \<open>
  The column \<open>c\<close> of the table a stage worked on, and the metrics of a backtest, when the
  call returned.
\<close>

definition table_col :: "error + nat \<times> store \<Rightarrow> string \<Rightarrow> column option" where
  "table_col r c = (case r of Inl e \<Rightarrow> None | Inr (d, h1) \<Rightarrow> cols (h1 ! d) c)"

definition signals_col :: "error + strategy \<times> nat \<times> store \<Rightarrow> string \<Rightarrow> column option" where
  "signals_col r c = (case r of Inl e \<Rightarrow> None | Inr (self1, d, h1) \<Rightarrow> cols (h1 ! d) c)"

definition backtest_col ::
  "error + results \<times> strategy \<times> nat \<times> store \<Rightarrow> string \<Rightarrow> column option" where
  "backtest_col r c = (case r of Inl e \<Rightarrow> None | Inr (res, self1, d, h1) \<Rightarrow> cols (h1 ! d) c)"

definition backtest_results :: "error + results \<times> strategy \<times> nat \<times> store \<Rightarrow> results option" where
  "backtest_results r = (case r of Inl e \<Rightarrow> None | Inr (res, self1, d, h1) \<Rightarrow> Some res)"

section \<open>Reference formulas of the specification\<close>

text \<open>
  The arithmetic mean of the \<open>w\<close> closing prices ending at bar \<open>t\<close>, bar \<open>t\<close> included,
  written directly over the prices.
\<close>

definition trailing_mean :: "nat \<Rightarrow> real list \<Rightarrow> nat \<Rightarrow> real" where
  "trailing_mean w cs t = sum_list (map ((!) cs) [Suc t - w..<Suc t]) / real w"

text \<open>
  The return of a bar, the strategy return (previous signal times current return) and the
  portfolio value (initial capital times the compounded strategy returns of the bars
  \<open>1..t\<close>), over the prices \<open>cs\<close> and the signals \<open>ss\<close>.
\<close>

definition spec_return :: "real list \<Rightarrow> nat \<Rightarrow> real" where
  "spec_return cs t = (cs ! t - cs ! (t - 1)) / cs ! (t - 1)"

definition spec_strategy_return :: "real list \<Rightarrow> real list \<Rightarrow> nat \<Rightarrow> real" where
  "spec_strategy_return ss cs t = ss ! (t - 1) * spec_return cs t"

definition spec_portfolio_value :: "real \<Rightarrow> real list \<Rightarrow> real list \<Rightarrow> nat \<Rightarrow> real" where
  "spec_portfolio_value ic ss cs t =
     ic * prod_list (map (\<lambda>k. 1 + spec_strategy_return ss cs k) [1..<Suc t])"

text \<open>
  The compounding of the portfolio formula over a list of strategy returns, in the arithmetic
  of the columns: the initial capital times the product of \<open>1 + r\<close>.
\<close>

definition compounded :: "real \<Rightarrow> column \<Rightarrow> fval" where
  "compounded ic rs = fmul (Fin ic) (foldl fmul (Fin 1) (map (fadd (Fin 1)) rs))"



text \<open>
  Two formulas for the exponential moving average with smoothing factor \<open>alpha\<close>: the
  mean of the bars up to \<open>t\<close> with the weight \<open>(1 - alpha) ^ i\<close> for the bar \<open>i\<close> steps back,
  divided by the sum of the weights; and the recursion of the specification, seeded with
  the first bar.
\<close>

definition ewm_weighted_mean :: "real \<Rightarrow> real list \<Rightarrow> nat \<Rightarrow> real" where
  "ewm_weighted_mean alpha xs t =
     (\<Sum>i\<le>t. (1 - alpha) ^ i * xs ! (t - i)) / (\<Sum>i\<le>t. (1 - alpha) ^ i)"

fun spec_ema :: "real \<Rightarrow> real list \<Rightarrow> nat \<Rightarrow> real" where
  "spec_ema alpha xs 0 = xs ! 0"
| "spec_ema alpha xs (Suc t) = alpha * xs ! Suc t + (1 - alpha) * spec_ema alpha xs t"

section \<open>Example inputs\<close>

text \<open>
  The closing prices 100, 102, 101, 105, 107 with windows 2 and 3: the prices alone, with
  their two moving averages, and with the signals and positions on top.
\<close>

definition ex_strategy :: strategy where
  "ex_strategy = \<lparr>short_window = 2, long_window = 3, signals = None, portfolio_value = None\<rparr>"

definition ex_close :: "real list" where
  "ex_close = [100, 102, 101, 105, 107]"

definition ex_sma_short :: column where
  "ex_sma_short = [NaN, Fin 101, Fin (203 / 2), Fin 103, Fin 106]"

definition ex_sma_long :: column where
  "ex_sma_long = [NaN, NaN, Fin 101, Fin (308 / 3), Fin (313 / 3)]"

definition ex_signal :: "real list" where
  "ex_signal = [0, 0, 1, 1, 1]"

definition ex_prices :: frame where
  "ex_prices = \<lparr>nrows = 5, cols = [''Close'' \<mapsto> map Fin ex_close]\<rparr>"

definition ex_indicators :: frame where
  "ex_indicators = \<lparr>nrows = 5, cols = [''Close'' \<mapsto> map Fin ex_close,
     ''SMA_short'' \<mapsto> ex_sma_short, ''SMA_long'' \<mapsto> ex_sma_long]\<rparr>"

definition ex_signals :: frame where
  "ex_signals = \<lparr>nrows = 5, cols = [''Close'' \<mapsto> map Fin ex_close,
     ''SMA_short'' \<mapsto> ex_sma_short, ''SMA_long'' \<mapsto> ex_sma_long,
     ''Signal'' \<mapsto> map Fin ex_signal,
     ''Position'' \<mapsto> [NaN, Fin 0, Fin 1, Fin 0, Fin 0]]\<rparr>"

text \<open>
  The prices 2, 4, 1, 1, 5 with windows 1 and 2, whose averages cross three times.
\<close>

definition cross_prices :: frame where
  "cross_prices = \<lparr>nrows = 5, cols = [''Close'' \<mapsto> map Fin [2, 4, 1, 1, 5]]\<rparr>"

definition cross_strategy :: strategy where
  "cross_strategy = \<lparr>short_window = 1, long_window = 2, signals = None, portfolio_value = None\<rparr>"

definition cross_sma_short :: column where
  "cross_sma_short = [Fin 2, Fin 4, Fin 1, Fin 1, Fin 5]"

definition cross_sma_long :: column where
  "cross_sma_long = [NaN, Fin 3, Fin (5 / 2), Fin 1, Fin 3]"

definition cross_indicators :: frame where
  "cross_indicators = \<lparr>nrows = 5, cols = [''Close'' \<mapsto> map Fin [2, 4, 1, 1, 5],
     ''SMA_short'' \<mapsto> cross_sma_short, ''SMA_long'' \<mapsto> cross_sma_long]\<rparr>"

text \<open>
  The prices 1, 3, 2 with both windows 1: the two averages are the price itself, equal at
  every bar, so the signal is \<open>-1\<close> throughout.
\<close>

definition tie_prices :: frame where
  "tie_prices = \<lparr>nrows = 3, cols = [''Close'' \<mapsto> map Fin [1, 3, 2]]\<rparr>"

definition tie_indicators :: frame where
  "tie_indicators = \<lparr>nrows = 3, cols = [''Close'' \<mapsto> map Fin [1, 3, 2],
     ''SMA_short'' \<mapsto> map Fin [1, 3, 2], ''SMA_long'' \<mapsto> map Fin [1, 3, 2]]\<rparr>"

definition tie_strategy :: strategy where
  "tie_strategy = \<lparr>short_window = 1, long_window = 1, signals = None, portfolio_value = None\<rparr>"

definition tie_signals :: frame where
  "tie_signals = \<lparr>nrows = 3, cols = [''Close'' \<mapsto> map Fin [1, 3, 2],
     ''SMA_short'' \<mapsto> map Fin [1, 3, 2], ''SMA_long'' \<mapsto> map Fin [1, 3, 2],
     ''Signal'' \<mapsto> map Fin [- 1, - 1, - 1],
     ''Position'' \<mapsto> [NaN, Fin 0, Fin 0]]\<rparr>"

text \<open>Three bars of constant price, and two bars 1 and 2.\<close>

definition flat_prices :: frame where
  "flat_prices = \<lparr>nrows = 3, cols = [''Close'' \<mapsto> map Fin [1, 1, 1]]\<rparr>"

definition two_prices :: frame where
  "two_prices = \<lparr>nrows = 2, cols = [''Close'' \<mapsto> map Fin [1, 2]]\<rparr>"

text \<open>
  Tables with prices and signals for the backtest: three bars whose first closing price is
  0; the prices 100, 110, 110 and the prices 1, 2, both held short; and the prices
  1, 0, 1, 3 with the signals 0, 1, -1, -1.
\<close>

definition gap_signals :: frame where
  "gap_signals = \<lparr>nrows = 3, cols = [''Close'' \<mapsto> map Fin [0, 1, 2],
     ''Signal'' \<mapsto> map Fin [0, 1, 1]]\<rparr>"




section \<open>The error bind and the store\<close>

lemma ebind_Inr [simp]: "ebind (Inr x) f = f x"
  by (simp add: ebind_def)

lemma ebind_Inl [simp]: "ebind (Inl e) f = Inl e"
  by (simp add: ebind_def)

lemmas store_defs = df_copy_def df_get_def df_set_def df_set_scalar_def

section \<open>Comparisons\<close>

lemma flt_irrefl [simp]: "\<not> flt a a"
  by (cases a) simp_all

lemma flt_total: "a \<noteq> NaN \<Longrightarrow> b \<noteq> NaN \<Longrightarrow> flt a b \<or> a = b \<or> flt b a"
  by (cases a; cases b) auto

lemma flt_asym: "flt a b \<Longrightarrow> \<not> flt b a"
  by (cases a; cases b) auto

lemma flt_not_NaN: "flt a b \<Longrightarrow> a \<noteq> NaN \<and> b \<noteq> NaN"
  by (cases a; cases b) auto

section \<open>Signals and positions\<close>

lemma signal_at_defined:
  "s \<noteq> NaN \<Longrightarrow> l \<noteq> NaN \<Longrightarrow> signal_at s l = (if flt l s then Fin 1 else Fin (- 1))"
  using flt_total [of s l] flt_asym [of s l] by (auto simp: signal_at_def fle_def)

lemma signal_at_undefined: "s = NaN \<or> l = NaN \<Longrightarrow> signal_at s l = Fin 0"
  using flt_not_NaN [of s l] flt_not_NaN [of l s] by (auto simp: signal_at_def fle_def)

lemma signal_at_cases: "signal_at a b = Fin 1 \<or> signal_at a b = Fin (- 1) \<or> signal_at a b = Fin 0"
  by (simp add: signal_at_def)

lemma signal_at_defined_cases:
  "a \<noteq> NaN \<Longrightarrow> b \<noteq> NaN \<Longrightarrow> signal_at a b = Fin 1 \<or> signal_at a b = Fin (- 1)"
  by (simp add: signal_at_defined)

lemma signal_col_eq:
  assumes "length s = n" and "length l = n"
  shows "loc_assign (map2 (\<lambda>s l. fle s l) s l) (Fin (- 1))
           (loc_assign (map2 (\<lambda>s l. flt l s) s l) (Fin 1) (replicate n (Fin 0)))
         = map2 signal_at s l"
  using assms by (intro nth_equalityI) (auto simp: loc_assign_def signal_at_def)

lemma shift1_length [simp]: "length (shift1 xs) = length xs"
  by (cases xs) (simp_all add: shift1_def)

lemma shift1_nth: "t < length xs \<Longrightarrow> shift1 xs ! t = (if t = 0 then NaN else xs ! (t - 1))"
  by (cases xs) (auto simp: shift1_def nth_Cons' nth_butlast simp del: butlast.simps)

lemma diff_col_length [simp]: "length (diff_col xs) = length xs"
  by (simp add: diff_col_def)

lemma fsub_NaN [simp]: "fsub a NaN = NaN"
  by (cases a) (simp_all add: fsub_def)

lemma diff_col_nth:
  "t < length xs \<Longrightarrow> diff_col xs ! t = (if t = 0 then NaN else fsub (xs ! t) (xs ! (t - 1)))"
  by (simp add: diff_col_def shift1_nth)

lemma generate_signals_result:
  assumes "cols (h ! data0) ''SMA_short'' = Some s"
    and "cols (h ! data0) ''SMA_long'' = Some l"
    and "length s = nrows (h ! data0)" and "length l = nrows (h ! data0)"
  shows "generate_signals self h data0 =
    Inr (self\<lparr>signals := Some (length h)\<rparr>, length h,
         h @ [(h ! data0)\<lparr>cols := (cols (h ! data0))
           (''Signal'' \<mapsto> map2 signal_at s l,
            ''Position'' \<mapsto> diff_col (map2 signal_at s l))\<rparr>])"
proof -
  have "generate_signals self h data0 =
    Inr (self\<lparr>signals := Some (length h)\<rparr>, length h, h @ [(h ! data0)\<lparr>cols := (cols (h ! data0))
      (''Signal'' \<mapsto> loc_assign (map2 (\<lambda>s l. fle s l) s l) (Fin (- 1))
          (loc_assign (map2 (\<lambda>s l. flt l s) s l) (Fin 1) (replicate (nrows (h ! data0)) (Fin 0))),
       ''Position'' \<mapsto> diff_col (loc_assign (map2 (\<lambda>s l. fle s l) s l) (Fin (- 1))
          (loc_assign (map2 (\<lambda>s l. flt l s) s l) (Fin 1) (replicate (nrows (h ! data0)) (Fin 0)))))\<rparr>])"
    using assms(1,2) by (simp add: generate_signals_def store_defs fun_upd_twist)
  then show ?thesis
    using signal_col_eq [of s "nrows (h ! data0)" l] assms(3,4) by simp
qed

lemma foldl_fadd_Fin: "foldl fadd (Fin a) (map Fin xs) = Fin (a + sum_list xs)"
  by (induction xs arbitrary: a) (simp_all add: add.assoc)

lemma fsum_Fin: "fsum (map Fin xs) = Fin (sum_list xs)"
  by (simp add: fsum_def foldl_fadd_Fin)

lemma telescope:
  fixes v :: "nat \<Rightarrow> real"
  shows "0 < a \<Longrightarrow> a \<le> Suc b \<Longrightarrow> sum_list (map (\<lambda>k. v k - v (k - 1)) [a..<Suc b]) = v b - v (a - 1)"
proof (induction b)
  case 0
  then show ?case by (cases "a = 1") simp_all
next
  case (Suc b)
  show ?case
  proof (cases "a = Suc (Suc b)")
    case True
    then show ?thesis by simp
  next
    case False
    with Suc.prems have "a \<le> Suc b" by simp
    with Suc.IH Suc.prems(1) show ?thesis by simp
  qed
qed

lemma flat_run_sum:
  assumes "\<forall>k. a \<le> k \<and> k \<le> b \<longrightarrow> ps ! k = Fin 0"
  shows "fsum (map ((!) ps) [a..<Suc b]) = Fin 0"
proof -
  have "map ((!) ps) [a..<Suc b] = map Fin (map (\<lambda>k. 0) [a..<Suc b])"
    using assms by auto
  then show ?thesis by (simp only: fsum_Fin) simp
qed

lemma change_run_sum:
  assumes sg: "sg = map2 signal_at s l" and len: "length s = n" "length l = n"
    and ab: "0 < a" "a < b" "b < n"
    and chg: "diff_col sg ! a \<noteq> Fin 0" "diff_col sg ! b \<noteq> Fin 0"
    and flat: "\<forall>k. a < k \<and> k < b \<longrightarrow> diff_col sg ! k = Fin 0"
    and dfd: "\<forall>k. a - 1 \<le> k \<and> k \<le> b \<longrightarrow> s ! k \<noteq> NaN \<and> l ! k \<noteq> NaN"
  shows "fsum (map ((!) (diff_col sg)) [a..<Suc b]) = Fin 0"
proof -
  define v where "v k = (case sg ! k of Fin x \<Rightarrow> x | _ \<Rightarrow> 0)" for k
  have lsg: "length sg = n" using sg len by simp
  have val: "sg ! k = Fin (v k) \<and> (v k = 1 \<or> v k = - 1)" if "a - 1 \<le> k" "k \<le> b" for k
  proof -
    have "k < n" using that ab by simp
    then have "sg ! k = signal_at (s ! k) (l ! k)" using sg len by simp
    moreover have "s ! k \<noteq> NaN" "l ! k \<noteq> NaN" using dfd that by auto
    ultimately have "sg ! k = Fin 1 \<or> sg ! k = Fin (- 1)"
      using signal_at_defined_cases by simp
    then show ?thesis by (auto simp: v_def)
  qed
  have pos: "diff_col sg ! k = Fin (v k - v (k - 1))" if "a \<le> k" "k \<le> b" for k
  proof -
    have "k < length sg" "0 < k" using that ab lsg by simp_all
    then have "diff_col sg ! k = fsub (sg ! k) (sg ! (k - 1))"
      by (simp add: diff_col_nth)
    moreover have "sg ! k = Fin (v k)" using val [of k] that by simp
    moreover have "sg ! (k - 1) = Fin (v (k - 1))" using val [of "k - 1"] that by simp
    ultimately show ?thesis by (simp add: fsub_def)
  qed
  have eq: "map ((!) (diff_col sg)) [a..<Suc b] = map Fin (map (\<lambda>k. v k - v (k - 1)) [a..<Suc b])"
    using pos by auto
  have tel: "sum_list (map (\<lambda>k. v k - v (k - 1)) [a..<Suc b]) = v b - v (a - 1)"
    by (rule telescope) (use ab in simp_all)
  have total: "fsum (map ((!) (diff_col sg)) [a..<Suc b]) = Fin (v b - v (a - 1))"
    by (simp only: eq fsum_Fin tel)
  have stay: "v k = v a" if "a \<le> k" "k < b" for k
    using that
  proof (induction k)
    case 0
    then show ?case by simp
  next
    case (Suc k)
    show ?case
    proof (cases "a = Suc k")
      case True
      then show ?thesis by simp
    next
      case False
      with Suc.prems have ak: "a \<le> k" "k < b" by simp_all
      have "diff_col sg ! Suc k = Fin 0" using flat Suc.prems False by simp
      moreover have "diff_col sg ! Suc k = Fin (v (Suc k) - v k)"
        using pos [of "Suc k"] Suc.prems by simp
      ultimately have "v (Suc k) = v k" by simp
      with Suc.IH [OF ak] show ?thesis by simp
    qed
  qed
  have "v a \<noteq> v (a - 1)" using chg(1) pos [of a] ab by auto
  moreover have "v b \<noteq> v (b - 1)" using chg(2) pos [of b] ab by auto
  moreover have "v (b - 1) = v a" using stay [of "b - 1"] ab by simp
  moreover have "v a = 1 \<or> v a = - 1" "v b = 1 \<or> v b = - 1" "v (a - 1) = 1 \<or> v (a - 1) = - 1"
    using val [of a] val [of b] val [of "a - 1"] ab by simp_all
  ultimately have "v b = v (a - 1)" by auto
  with total show ?thesis by simp
qed

lemma position_values:
  assumes sg: "sg = map2 signal_at s l" and len: "length s = n" "length l = n"
    and t: "0 < t" "t < n"
  shows "diff_col sg ! t = fsub (sg ! t) (sg ! (t - 1))"
    and "diff_col sg ! t \<in> Fin ` {- 2, - 1, 0, 1, 2}"
    and "diff_col sg ! t \<noteq> Fin 0 \<longleftrightarrow> sg ! t \<noteq> sg ! (t - 1)"
    and "s ! (t - 1) \<noteq> NaN \<and> l ! (t - 1) \<noteq> NaN \<and> s ! t \<noteq> NaN \<and> l ! t \<noteq> NaN
         \<longrightarrow> diff_col sg ! t \<in> Fin ` {- 2, 0, 2}"
proof -
  have lsg: "t < length sg" using sg len t by simp
  show d: "diff_col sg ! t = fsub (sg ! t) (sg ! (t - 1))"
    using lsg t by (simp add: diff_col_nth)
  have a: "sg ! t = signal_at (s ! t) (l ! t)" using sg len t by simp
  have b: "sg ! (t - 1) = signal_at (s ! (t - 1)) (l ! (t - 1))" using sg len t by simp
  show "diff_col sg ! t \<in> Fin ` {- 2, - 1, 0, 1, 2}"
    using signal_at_cases [of "s ! t" "l ! t"] signal_at_cases [of "s ! (t - 1)" "l ! (t - 1)"]
    unfolding d a b by (auto simp: fsub_def)
  show "diff_col sg ! t \<noteq> Fin 0 \<longleftrightarrow> sg ! t \<noteq> sg ! (t - 1)"
    using signal_at_cases [of "s ! t" "l ! t"] signal_at_cases [of "s ! (t - 1)" "l ! (t - 1)"]
    unfolding d a b by (auto simp: fsub_def)
  show "s ! (t - 1) \<noteq> NaN \<and> l ! (t - 1) \<noteq> NaN \<and> s ! t \<noteq> NaN \<and> l ! t \<noteq> NaN
         \<longrightarrow> diff_col sg ! t \<in> Fin ` {- 2, 0, 2}"
    using signal_at_defined_cases [of "s ! t" "l ! t"]
      signal_at_defined_cases [of "s ! (t - 1)" "l ! (t - 1)"]
    unfolding d a b by (auto simp: fsub_def)
qed

lemma ex_indicators_signals:
  "generate_signals ex_strategy [ex_indicators] 0 =
     Inr (ex_strategy\<lparr>signals := Some 1\<rparr>, 1,
          [ex_indicators, ex_indicators\<lparr>cols := (cols ex_indicators)
             (''Signal'' \<mapsto> [Fin 0, Fin 0, Fin 1, Fin 1, Fin 1],
              ''Position'' \<mapsto> [NaN, Fin 0, Fin 1, Fin 0, Fin 0])\<rparr>])"
proof -
  have "map2 signal_at ex_sma_short ex_sma_long = [Fin 0, Fin 0, Fin 1, Fin 1, Fin 1]"
    by (simp add: ex_sma_short_def ex_sma_long_def signal_at_def fle_def)
  moreover have "diff_col [Fin 0, Fin 0, Fin 1, Fin 1, Fin 1] = [NaN, Fin 0, Fin 1, Fin 0, Fin 0]"
    by (simp add: diff_col_def shift1_def fsub_def)
  ultimately show ?thesis
    using generate_signals_result [of "[ex_indicators]" 0 ex_sma_short ex_sma_long ex_strategy]
    by (simp add: ex_indicators_def ex_sma_short_def ex_sma_long_def)
qed

lemma cross_indicators_signals:
  "generate_signals cross_strategy [cross_indicators] 0 =
     Inr (cross_strategy\<lparr>signals := Some 1\<rparr>, 1,
          [cross_indicators, cross_indicators\<lparr>cols := (cols cross_indicators)
             (''Signal'' \<mapsto> [Fin 0, Fin 1, Fin (- 1), Fin (- 1), Fin 1],
              ''Position'' \<mapsto> [NaN, Fin 1, Fin (- 2), Fin 0, Fin 2])\<rparr>])"
proof -
  have "map2 signal_at cross_sma_short cross_sma_long = [Fin 0, Fin 1, Fin (- 1), Fin (- 1), Fin 1]"
    by (simp add: cross_sma_short_def cross_sma_long_def signal_at_def fle_def)
  moreover have "diff_col [Fin 0, Fin 1, Fin (- 1), Fin (- 1), Fin 1] = [NaN, Fin 1, Fin (- 2), Fin 0, Fin 2]"
    by (simp add: diff_col_def shift1_def fsub_def)
  ultimately show ?thesis
    using generate_signals_result [of "[cross_indicators]" 0 cross_sma_short cross_sma_long cross_strategy]
    by (simp add: cross_indicators_def cross_sma_short_def cross_sma_long_def)
qed

subsection \<open>The crossover rule\<close>

text \<open>
  Claim C2, as the code has it. \<open>generate_signals\<close> returns, and at every bar where both
  \<open>SMA_short\<close> and \<open>SMA_long\<close> hold a value the signal is \<open>+1\<close> if the short average is
  greater than the long one and \<open>-1\<close> otherwise, so a tie gives \<open>-1\<close>. At a bar where one of
  the averages is missing the signal is not missing: it keeps the initial value \<open>0\<close>. The
  position of every bar after the first is the signal minus the previous signal and always
  holds a value, also when one of the two signals comes from a bar without averages.
\<close>

theorem signals_follow_crossover:
  assumes "cols (h ! data0) ''SMA_short'' = Some s"
    and "cols (h ! data0) ''SMA_long'' = Some l"
    and "length s = nrows (h ! data0)" and "length l = nrows (h ! data0)"
  shows "\<exists>self1 d h1 sg ps.
     generate_signals self h data0 = Inr (self1, d, h1) \<and>
     cols (h1 ! d) ''Signal'' = Some sg \<and> cols (h1 ! d) ''Position'' = Some ps \<and>
     length sg = length s \<and> length ps = length s \<and>
     (\<forall>t<length s. s ! t \<noteq> NaN \<and> l ! t \<noteq> NaN
        \<longrightarrow> sg ! t = (if flt (l ! t) (s ! t) then Fin 1 else Fin (- 1))) \<and>
     (\<forall>t<length s. s ! t = NaN \<or> l ! t = NaN \<longrightarrow> sg ! t = Fin 0) \<and>
     (\<forall>t<length s. 0 < t \<longrightarrow> ps ! t = fsub (sg ! t) (sg ! (t - 1)) \<and> ps ! t \<noteq> NaN)"
proof -
  define sg where "sg = map2 signal_at s l"
  define h1 where "h1 = h @ [(h ! data0)\<lparr>cols := (cols (h ! data0))
           (''Signal'' \<mapsto> sg, ''Position'' \<mapsto> diff_col sg)\<rparr>]"
  have run: "generate_signals self h data0 = Inr (self\<lparr>signals := Some (length h)\<rparr>, length h, h1)"
    unfolding h1_def sg_def by (rule generate_signals_result [OF assms])
  have c1: "cols (h1 ! length h) ''Signal'' = Some sg"
    and c2: "cols (h1 ! length h) ''Position'' = Some (diff_col sg)"
    by (simp_all add: h1_def)
  have len: "length sg = length s" "length (diff_col sg) = length s"
    using assms(3,4) by (simp_all add: sg_def)
  have nth: "sg ! t = signal_at (s ! t) (l ! t)" if "t < length s" for t
    using that assms(3,4) by (simp add: sg_def)
  have dfd: "\<forall>t<length s. s ! t \<noteq> NaN \<and> l ! t \<noteq> NaN
        \<longrightarrow> sg ! t = (if flt (l ! t) (s ! t) then Fin 1 else Fin (- 1))"
    using nth signal_at_defined by simp
  have lead: "\<forall>t<length s. s ! t = NaN \<or> l ! t = NaN \<longrightarrow> sg ! t = Fin 0"
    using nth signal_at_undefined by simp
  have pos: "\<forall>t<length s. 0 < t \<longrightarrow> diff_col sg ! t = fsub (sg ! t) (sg ! (t - 1)) \<and> diff_col sg ! t \<noteq> NaN"
  proof (intro allI impI)
    fix t assume t: "t < length s" "0 < t"
    have "diff_col sg ! t \<in> Fin ` {- 2, - 1, 0, 1, 2}"
      by (rule position_values(2) [OF sg_def refl _ t(2,1)]) (use assms(3,4) in simp)
    then have "diff_col sg ! t \<noteq> NaN" by auto
    moreover have "diff_col sg ! t = fsub (sg ! t) (sg ! (t - 1))"
      by (rule position_values(1) [OF sg_def refl _ t(2,1)]) (use assms(3,4) in simp)
    ultimately show "diff_col sg ! t = fsub (sg ! t) (sg ! (t - 1)) \<and> diff_col sg ! t \<noteq> NaN"
      by simp
  qed
  from run c1 c2 len dfd lead pos show ?thesis by (intro exI conjI)
qed

theorem signals_follow_crossover_witness:
  "cols ([ex_indicators] ! 0) ''SMA_short'' = Some ex_sma_short \<and>
   cols ([ex_indicators] ! 0) ''SMA_long'' = Some ex_sma_long \<and>
   length ex_sma_short = nrows ([ex_indicators] ! 0) \<and>
   length ex_sma_long = nrows ([ex_indicators] ! 0) \<and>
   (\<exists>sg ps. signals_col (generate_signals ex_strategy [ex_indicators] 0) ''Signal'' = Some sg \<and>
      signals_col (generate_signals ex_strategy [ex_indicators] 0) ''Position'' = Some ps \<and>
      sg ! 1 = Fin 0 \<and> sg ! 2 = Fin 1 \<and> ps ! 2 = fsub (sg ! 2) (sg ! 1) \<and> ps ! 2 \<noteq> NaN)"
proof -
  have h1: "cols ([ex_indicators] ! 0) ''SMA_short'' = Some ex_sma_short"
    and h2: "cols ([ex_indicators] ! 0) ''SMA_long'' = Some ex_sma_long"
    and h3: "length ex_sma_short = nrows ([ex_indicators] ! 0)"
    and h4: "length ex_sma_long = nrows ([ex_indicators] ! 0)"
    by (simp_all add: ex_indicators_def ex_sma_short_def ex_sma_long_def)
  obtain self1 d h1' sg ps where
    run: "generate_signals ex_strategy [ex_indicators] 0 = Inr (self1, d, h1')"
    and sg: "cols (h1' ! d) ''Signal'' = Some sg" and ps: "cols (h1' ! d) ''Position'' = Some ps"
    and dfd: "\<forall>t<length ex_sma_short. ex_sma_short ! t \<noteq> NaN \<and> ex_sma_long ! t \<noteq> NaN
        \<longrightarrow> sg ! t = (if flt (ex_sma_long ! t) (ex_sma_short ! t) then Fin 1 else Fin (- 1))"
    and lead: "\<forall>t<length ex_sma_short. ex_sma_short ! t = NaN \<or> ex_sma_long ! t = NaN \<longrightarrow> sg ! t = Fin 0"
    and pos: "\<forall>t<length ex_sma_short. 0 < t \<longrightarrow> ps ! t = fsub (sg ! t) (sg ! (t - 1)) \<and> ps ! t \<noteq> NaN"
    using signals_follow_crossover [OF h1 h2 h3 h4, of ex_strategy]
    by (elim exE conjE) (rule that)
  have "sg ! 1 = Fin 0"
    using lead by (simp add: ex_sma_short_def ex_sma_long_def)
  moreover have "sg ! 2 = Fin 1"
    using dfd [rule_format, of 2] by (simp add: ex_sma_short_def ex_sma_long_def)
  moreover have "ps ! 2 = fsub (sg ! 2) (sg ! 1) \<and> ps ! 2 \<noteq> NaN"
    using pos [rule_format, of 2] by (auto simp: ex_sma_short_def)
  moreover have "signals_col (generate_signals ex_strategy [ex_indicators] 0) ''Signal'' = Some sg"
    "signals_col (generate_signals ex_strategy [ex_indicators] 0) ''Position'' = Some ps"
    using run sg ps by (simp_all add: signals_col_def)
  ultimately show ?thesis using h1 h2 h3 h4 by blast
qed

text \<open>
  On the example prices the first two bars miss an average, yet their signal is \<open>0\<close> and
  the positions of bars 1 and 2 hold values.
\<close>

theorem leading_signal_is_zero_counterexample:
  "ex_sma_short ! 0 = NaN \<and> ex_sma_long ! 1 = NaN \<and>
   signals_col (generate_signals ex_strategy [ex_indicators] 0) ''Signal''
     = Some [Fin 0, Fin 0, Fin 1, Fin 1, Fin 1] \<and>
   signals_col (generate_signals ex_strategy [ex_indicators] 0) ''Position''
     = Some [NaN, Fin 0, Fin 1, Fin 0, Fin 0]"
  by (simp add: ex_indicators_signals signals_col_def) (simp add: ex_sma_short_def ex_sma_long_def)

subsection \<open>The leading bars\<close>

text \<open>
  Claim C10. At every bar where \<open>SMA_short\<close> or \<open>SMA_long\<close> is missing, \<open>generate_signals\<close>
  assigns the signal \<open>0\<close>. At a bar whose averages are both present and whose previous bar
  misses one (the first bar with both averages, when leading bars exist), the position
  is that bar's signal minus \<open>0\<close>, that is the signal itself: \<open>+1\<close> or \<open>-1\<close>, not a value of
  \<open>{-2, 0, +2}\<close>.
\<close>

theorem signals_zero_on_leading_bars:
  assumes "cols (h ! data0) ''SMA_short'' = Some s"
    and "cols (h ! data0) ''SMA_long'' = Some l"
    and "length s = nrows (h ! data0)" and "length l = nrows (h ! data0)"
  shows "\<exists>self1 d h1 sg ps.
     generate_signals self h data0 = Inr (self1, d, h1) \<and>
     cols (h1 ! d) ''Signal'' = Some sg \<and> cols (h1 ! d) ''Position'' = Some ps \<and>
     length sg = length s \<and> length ps = length s \<and>
     (\<forall>t<length s. s ! t = NaN \<or> l ! t = NaN \<longrightarrow> sg ! t = Fin 0) \<and>
     (\<forall>t<length s. 0 < t \<and> (s ! (t - 1) = NaN \<or> l ! (t - 1) = NaN) \<and> s ! t \<noteq> NaN \<and> l ! t \<noteq> NaN
        \<longrightarrow> ps ! t = fsub (sg ! t) (Fin 0) \<and> ps ! t = sg ! t \<and> (ps ! t = Fin 1 \<or> ps ! t = Fin (- 1)))"
proof -
  define sg where "sg = map2 signal_at s l"
  define h1 where "h1 = h @ [(h ! data0)\<lparr>cols := (cols (h ! data0))
           (''Signal'' \<mapsto> sg, ''Position'' \<mapsto> diff_col sg)\<rparr>]"
  have run: "generate_signals self h data0 = Inr (self\<lparr>signals := Some (length h)\<rparr>, length h, h1)"
    unfolding h1_def sg_def by (rule generate_signals_result [OF assms])
  have c1: "cols (h1 ! length h) ''Signal'' = Some sg"
    and c2: "cols (h1 ! length h) ''Position'' = Some (diff_col sg)"
    by (simp_all add: h1_def)
  have len: "length sg = length s" "length (diff_col sg) = length s"
    using assms(3,4) by (simp_all add: sg_def)
  have nth: "sg ! t = signal_at (s ! t) (l ! t)" if "t < length s" for t
    using that assms(3,4) by (simp add: sg_def)
  have lead: "\<forall>t<length s. s ! t = NaN \<or> l ! t = NaN \<longrightarrow> sg ! t = Fin 0"
    using nth signal_at_undefined by simp
  have first: "diff_col sg ! t = fsub (sg ! t) (Fin 0) \<and> diff_col sg ! t = sg ! t \<and>
       (diff_col sg ! t = Fin 1 \<or> diff_col sg ! t = Fin (- 1))"
    if "t < length s" "0 < t" "s ! (t - 1) = NaN \<or> l ! (t - 1) = NaN" "s ! t \<noteq> NaN" "l ! t \<noteq> NaN" for t
  proof -
    have "t - 1 < length s" using that(1) by simp
    with lead that(3) have p: "sg ! (t - 1) = Fin 0" by blast
    have c: "sg ! t = Fin 1 \<or> sg ! t = Fin (- 1)"
      using nth [OF that(1)] signal_at_defined [OF that(4,5)] by auto
    have "diff_col sg ! t = fsub (sg ! t) (sg ! (t - 1))"
      using diff_col_nth [of t sg] that len by simp
    with p c show ?thesis by (auto simp: fsub_def)
  qed
  then have first': "\<forall>t<length s. 0 < t \<and> (s ! (t - 1) = NaN \<or> l ! (t - 1) = NaN) \<and> s ! t \<noteq> NaN \<and> l ! t \<noteq> NaN
        \<longrightarrow> diff_col sg ! t = fsub (sg ! t) (Fin 0) \<and> diff_col sg ! t = sg ! t \<and>
            (diff_col sg ! t = Fin 1 \<or> diff_col sg ! t = Fin (- 1))"
    by blast
  from run c1 c2 len lead first' show ?thesis by (intro exI conjI)
qed

theorem signals_zero_on_leading_bars_witness:
  "cols ([ex_indicators] ! 0) ''SMA_short'' = Some ex_sma_short \<and>
   cols ([ex_indicators] ! 0) ''SMA_long'' = Some ex_sma_long \<and>
   length ex_sma_short = nrows ([ex_indicators] ! 0) \<and>
   length ex_sma_long = nrows ([ex_indicators] ! 0) \<and>
   (\<exists>sg ps. signals_col (generate_signals ex_strategy [ex_indicators] 0) ''Signal'' = Some sg \<and>
      signals_col (generate_signals ex_strategy [ex_indicators] 0) ''Position'' = Some ps \<and>
      sg ! 0 = Fin 0 \<and> sg ! 1 = Fin 0 \<and> ps ! 2 = sg ! 2 \<and> (ps ! 2 = Fin 1 \<or> ps ! 2 = Fin (- 1)))"
proof -
  have h1: "cols ([ex_indicators] ! 0) ''SMA_short'' = Some ex_sma_short"
    and h2: "cols ([ex_indicators] ! 0) ''SMA_long'' = Some ex_sma_long"
    and h3: "length ex_sma_short = nrows ([ex_indicators] ! 0)"
    and h4: "length ex_sma_long = nrows ([ex_indicators] ! 0)"
    by (simp_all add: ex_indicators_def ex_sma_short_def ex_sma_long_def)
  obtain self1 d h1' sg ps where
    run: "generate_signals ex_strategy [ex_indicators] 0 = Inr (self1, d, h1')"
    and sg: "cols (h1' ! d) ''Signal'' = Some sg" and ps: "cols (h1' ! d) ''Position'' = Some ps"
    and lead: "\<forall>t<length ex_sma_short. ex_sma_short ! t = NaN \<or> ex_sma_long ! t = NaN \<longrightarrow> sg ! t = Fin 0"
    and first: "\<forall>t<length ex_sma_short. 0 < t \<and> (ex_sma_short ! (t - 1) = NaN \<or> ex_sma_long ! (t - 1) = NaN)
        \<and> ex_sma_short ! t \<noteq> NaN \<and> ex_sma_long ! t \<noteq> NaN
        \<longrightarrow> ps ! t = fsub (sg ! t) (Fin 0) \<and> ps ! t = sg ! t \<and> (ps ! t = Fin 1 \<or> ps ! t = Fin (- 1))"
    using signals_zero_on_leading_bars [OF h1 h2 h3 h4, of ex_strategy]
    by (elim exE conjE) (rule that)
  have "sg ! 0 = Fin 0" "sg ! 1 = Fin 0"
    using lead by (simp_all add: ex_sma_short_def ex_sma_long_def)
  moreover have "ps ! 2 = sg ! 2 \<and> (ps ! 2 = Fin 1 \<or> ps ! 2 = Fin (- 1))"
    using first [rule_format, of 2] by (auto simp: ex_sma_short_def ex_sma_long_def)
  moreover have "signals_col (generate_signals ex_strategy [ex_indicators] 0) ''Signal'' = Some sg"
    "signals_col (generate_signals ex_strategy [ex_indicators] 0) ''Position'' = Some ps"
    using run sg ps by (simp_all add: signals_col_def)
  ultimately show ?thesis using h1 h2 h3 h4 by blast
qed

subsection \<open>Positions\<close>

text \<open>
  Claim C6, as the code has it. The position is missing on the first bar. At every later
  bar it is the signal minus the previous signal; it lies in \<open>{-2, -1, 0, 1, 2}\<close>, and in
  \<open>{-2, 0, +2}\<close> where both averages are present at the bar and at the bar before; it is
  nonzero exactly where the signal differs from the previous one. The positions of a run of
  bars without a change sum to \<open>0\<close>, and so do the positions from one change to the next
  one, both included, when the averages are present from the bar before the first change on.
\<close>

theorem position_is_signal_change:
  assumes "cols (h ! data0) ''SMA_short'' = Some s"
    and "cols (h ! data0) ''SMA_long'' = Some l"
    and "length s = nrows (h ! data0)" and "length l = nrows (h ! data0)"
  shows "\<exists>self1 d h1 sg ps.
     generate_signals self h data0 = Inr (self1, d, h1) \<and>
     cols (h1 ! d) ''Signal'' = Some sg \<and> cols (h1 ! d) ''Position'' = Some ps \<and>
     length sg = length s \<and> length ps = length s \<and>
     (0 < length s \<longrightarrow> ps ! 0 = NaN) \<and>
     (\<forall>t<length s. 0 < t \<longrightarrow>
        ps ! t = fsub (sg ! t) (sg ! (t - 1)) \<and>
        ps ! t \<in> Fin ` {- 2, - 1, 0, 1, 2} \<and>
        (ps ! t \<noteq> Fin 0 \<longleftrightarrow> sg ! t \<noteq> sg ! (t - 1)) \<and>
        (s ! (t - 1) \<noteq> NaN \<and> l ! (t - 1) \<noteq> NaN \<and> s ! t \<noteq> NaN \<and> l ! t \<noteq> NaN
           \<longrightarrow> ps ! t \<in> Fin ` {- 2, 0, 2})) \<and>
     (\<forall>a b. b < length s \<and> (\<forall>k. a \<le> k \<and> k \<le> b \<longrightarrow> ps ! k = Fin 0)
        \<longrightarrow> fsum (map ((!) ps) [a..<Suc b]) = Fin 0) \<and>
     (\<forall>a b. 0 < a \<and> a < b \<and> b < length s \<and> ps ! a \<noteq> Fin 0 \<and> ps ! b \<noteq> Fin 0 \<and>
        (\<forall>k. a < k \<and> k < b \<longrightarrow> ps ! k = Fin 0) \<and>
        (\<forall>k. a - 1 \<le> k \<and> k \<le> b \<longrightarrow> s ! k \<noteq> NaN \<and> l ! k \<noteq> NaN)
        \<longrightarrow> fsum (map ((!) ps) [a..<Suc b]) = Fin 0)"
proof -
  define sg where "sg = map2 signal_at s l"
  define h1 where "h1 = h @ [(h ! data0)\<lparr>cols := (cols (h ! data0))
           (''Signal'' \<mapsto> sg, ''Position'' \<mapsto> diff_col sg)\<rparr>]"
  have run: "generate_signals self h data0 = Inr (self\<lparr>signals := Some (length h)\<rparr>, length h, h1)"
    unfolding h1_def sg_def by (rule generate_signals_result [OF assms])
  have c1: "cols (h1 ! length h) ''Signal'' = Some sg"
    and c2: "cols (h1 ! length h) ''Position'' = Some (diff_col sg)"
    by (simp_all add: h1_def)
  have ll: "length l = length s" using assms(3,4) by simp
  have len: "length sg = length s" "length (diff_col sg) = length s"
    using ll by (simp_all add: sg_def)
  have p0: "0 < length s \<longrightarrow> diff_col sg ! 0 = NaN"
    using len by (simp add: diff_col_nth)
  have pt: "\<forall>t<length s. 0 < t \<longrightarrow>
        diff_col sg ! t = fsub (sg ! t) (sg ! (t - 1)) \<and>
        diff_col sg ! t \<in> Fin ` {- 2, - 1, 0, 1, 2} \<and>
        (diff_col sg ! t \<noteq> Fin 0 \<longleftrightarrow> sg ! t \<noteq> sg ! (t - 1)) \<and>
        (s ! (t - 1) \<noteq> NaN \<and> l ! (t - 1) \<noteq> NaN \<and> s ! t \<noteq> NaN \<and> l ! t \<noteq> NaN
           \<longrightarrow> diff_col sg ! t \<in> Fin ` {- 2, 0, 2})"
    using position_values [OF sg_def refl ll] by blast
  have flat: "\<forall>a b. b < length s \<and> (\<forall>k. a \<le> k \<and> k \<le> b \<longrightarrow> diff_col sg ! k = Fin 0)
        \<longrightarrow> fsum (map ((!) (diff_col sg)) [a..<Suc b]) = Fin 0"
    using flat_run_sum by blast
  have chg: "\<forall>a b. 0 < a \<and> a < b \<and> b < length s \<and> diff_col sg ! a \<noteq> Fin 0 \<and> diff_col sg ! b \<noteq> Fin 0 \<and>
        (\<forall>k. a < k \<and> k < b \<longrightarrow> diff_col sg ! k = Fin 0) \<and>
        (\<forall>k. a - 1 \<le> k \<and> k \<le> b \<longrightarrow> s ! k \<noteq> NaN \<and> l ! k \<noteq> NaN)
        \<longrightarrow> fsum (map ((!) (diff_col sg)) [a..<Suc b]) = Fin 0"
    using change_run_sum [OF sg_def refl ll] by blast
  from run c1 c2 len p0 pt flat chg show ?thesis by (intro exI conjI)
qed

theorem position_is_signal_change_witness:
  "cols ([cross_indicators] ! 0) ''SMA_short'' = Some cross_sma_short \<and>
   cols ([cross_indicators] ! 0) ''SMA_long'' = Some cross_sma_long \<and>
   length cross_sma_short = nrows ([cross_indicators] ! 0) \<and>
   length cross_sma_long = nrows ([cross_indicators] ! 0) \<and>
   (\<exists>sg ps. signals_col (generate_signals cross_strategy [cross_indicators] 0) ''Signal'' = Some sg \<and>
      signals_col (generate_signals cross_strategy [cross_indicators] 0) ''Position'' = Some ps \<and>
      ps = [NaN, Fin 1, Fin (- 2), Fin 0, Fin 2] \<and>
      ps ! 0 = NaN \<and> ps ! 2 = fsub (sg ! 2) (sg ! 1) \<and> ps ! 2 \<in> Fin ` {- 2, 0, 2} \<and>
      fsum (map ((!) ps) [3..<Suc 3]) = Fin 0 \<and>
      fsum (map ((!) ps) [2..<Suc 4]) = Fin 0)"
proof -
  have h1: "cols ([cross_indicators] ! 0) ''SMA_short'' = Some cross_sma_short"
    and h2: "cols ([cross_indicators] ! 0) ''SMA_long'' = Some cross_sma_long"
    and h3: "length cross_sma_short = nrows ([cross_indicators] ! 0)"
    and h4: "length cross_sma_long = nrows ([cross_indicators] ! 0)"
    by (simp_all add: cross_indicators_def cross_sma_short_def cross_sma_long_def)
  obtain self1 d h1' sg ps where
    run: "generate_signals cross_strategy [cross_indicators] 0 = Inr (self1, d, h1')"
    and sg: "cols (h1' ! d) ''Signal'' = Some sg" and ps: "cols (h1' ! d) ''Position'' = Some ps"
    and p0: "0 < length cross_sma_short \<longrightarrow> ps ! 0 = NaN"
    and pt: "\<forall>t<length cross_sma_short. 0 < t \<longrightarrow>
        ps ! t = fsub (sg ! t) (sg ! (t - 1)) \<and>
        ps ! t \<in> Fin ` {- 2, - 1, 0, 1, 2} \<and>
        (ps ! t \<noteq> Fin 0 \<longleftrightarrow> sg ! t \<noteq> sg ! (t - 1)) \<and>
        (cross_sma_short ! (t - 1) \<noteq> NaN \<and> cross_sma_long ! (t - 1) \<noteq> NaN \<and>
         cross_sma_short ! t \<noteq> NaN \<and> cross_sma_long ! t \<noteq> NaN
           \<longrightarrow> ps ! t \<in> Fin ` {- 2, 0, 2})"
    and flat: "\<forall>a b. b < length cross_sma_short \<and> (\<forall>k. a \<le> k \<and> k \<le> b \<longrightarrow> ps ! k = Fin 0)
        \<longrightarrow> fsum (map ((!) ps) [a..<Suc b]) = Fin 0"
    and chg: "\<forall>a b. 0 < a \<and> a < b \<and> b < length cross_sma_short \<and> ps ! a \<noteq> Fin 0 \<and> ps ! b \<noteq> Fin 0 \<and>
        (\<forall>k. a < k \<and> k < b \<longrightarrow> ps ! k = Fin 0) \<and>
        (\<forall>k. a - 1 \<le> k \<and> k \<le> b \<longrightarrow> cross_sma_short ! k \<noteq> NaN \<and> cross_sma_long ! k \<noteq> NaN)
        \<longrightarrow> fsum (map ((!) ps) [a..<Suc b]) = Fin 0"
    using position_is_signal_change [OF h1 h2 h3 h4, of cross_strategy]
    by (elim exE conjE) (rule that)
  have psv: "ps = [NaN, Fin 1, Fin (- 2), Fin 0, Fin 2]"
    using run ps by (auto simp: cross_indicators_signals)
  have a0: "ps ! 0 = NaN" using p0 by (simp add: cross_sma_short_def)
  have a2: "ps ! 2 = fsub (sg ! 2) (sg ! 1) \<and> ps ! 2 \<in> Fin ` {- 2, 0, 2}"
    using pt [rule_format, of 2] by (auto simp: cross_sma_short_def cross_sma_long_def)
  have k3: "\<forall>k. (3::nat) \<le> k \<and> k \<le> 3 \<longrightarrow> ps ! k = Fin 0"
  proof (intro allI impI)
    fix k :: nat assume "3 \<le> k \<and> k \<le> 3"
    then have "k = 3" by simp
    then show "ps ! k = Fin 0" by (simp add: psv)
  qed
  have f3: "fsum (map ((!) ps) [3..<Suc 3]) = Fin 0"
    using flat [rule_format, of 3 3] k3 by (simp add: cross_sma_short_def)
  have k24: "\<forall>k. (2::nat) < k \<and> k < 4 \<longrightarrow> ps ! k = Fin 0"
  proof (intro allI impI)
    fix k :: nat assume "2 < k \<and> k < 4"
    then have "k = 3" by simp
    then show "ps ! k = Fin 0" by (simp add: psv)
  qed
  have d24: "\<forall>k. (2::nat) - 1 \<le> k \<and> k \<le> 4 \<longrightarrow> cross_sma_short ! k \<noteq> NaN \<and> cross_sma_long ! k \<noteq> NaN"
  proof (intro allI impI)
    fix k :: nat assume "2 - 1 \<le> k \<and> k \<le> 4"
    then have "k = 1 \<or> k = 2 \<or> k = 3 \<or> k = 4" by auto
    then show "cross_sma_short ! k \<noteq> NaN \<and> cross_sma_long ! k \<noteq> NaN"
      by (auto simp: cross_sma_short_def cross_sma_long_def)
  qed
  have "ps ! 2 \<noteq> Fin 0" "ps ! 4 \<noteq> Fin 0" by (simp_all add: psv)
  then have f24: "fsum (map ((!) ps) [2..<Suc 4]) = Fin 0"
    using chg [rule_format, of 2 4] k24 d24 by (simp add: cross_sma_short_def)
  have "signals_col (generate_signals cross_strategy [cross_indicators] 0) ''Signal'' = Some sg"
    "signals_col (generate_signals cross_strategy [cross_indicators] 0) ''Position'' = Some ps"
    using run sg ps by (simp_all add: signals_col_def)
  with psv a0 a2 f3 f24 show ?thesis using h1 h2 h3 h4 by blast
qed

text \<open>
  On the crossing prices the position of bar 1, the first bar with both averages, is \<open>1\<close>.
\<close>

theorem position_outside_range_counterexample:
  "signals_col (generate_signals cross_strategy [cross_indicators] 0) ''Position''
     = Some [NaN, Fin 1, Fin (- 2), Fin 0, Fin 2] \<and>
   [NaN, Fin 1, Fin (- 2), Fin 0, Fin 2] ! 1 \<notin> {Fin (- 2), Fin 0, Fin 2}"
  by (simp add: cross_indicators_signals signals_col_def)

section \<open>Moving averages\<close>

lemma notna_Fin [simp]: "notna (map Fin xs) = map Fin xs"
  by (simp add: notna_def)

lemma drop_take_upt: "b \<le> length xs \<Longrightarrow> drop a (take b xs) = map ((!) xs) [a..<b]"
  by (intro nth_equalityI) auto

lemma window_Fin:
  "t < length cs \<Longrightarrow> window w (map Fin cs) t = map Fin (map ((!) cs) [Suc t - w..<Suc t])"
  by (simp add: window_def drop_take_upt take_map drop_map)

lemma roll_mean_length [simp]: "length (roll_mean w xs) = length xs"
  by (simp add: roll_mean_def)

lemma window_mean_Fin:
  "window_mean w (map Fin ys) =
     (if w \<le> length ys \<and> 0 < length ys then Fin (sum_list ys / real (length ys)) else NaN)"
  by (simp add: window_mean_def Let_def fsum_Fin)

lemma roll_mean_Fin:
  assumes "0 < w" and "t < length cs"
  shows "roll_mean w (map Fin cs) ! t = (if t < w - 1 then NaN else Fin (trailing_mean w cs t))"
proof -
  define ys where "ys = map ((!) cs) [Suc t - w..<Suc t]"
  have ly: "length ys = Suc t - (Suc t - w)" by (simp add: ys_def del: upt_Suc)
  have "roll_mean w (map Fin cs) ! t = window_mean w (window w (map Fin cs) t)"
    using assms(2) by (simp add: roll_mean_def)
  also have "\<dots> = window_mean w (map Fin ys)"
    using assms(2) by (simp only: window_Fin ys_def)
  also have "\<dots> = (if w \<le> length ys \<and> 0 < length ys then Fin (sum_list ys / real (length ys)) else NaN)"
    by (rule window_mean_Fin)
  also have "\<dots> = (if t < w - 1 then NaN else Fin (trailing_mean w cs t))"
  proof (cases "t < w - 1")
    case True
    then have "\<not> w \<le> length ys" unfolding ly by simp
    with True show ?thesis by simp
  next
    case False
    with assms(1) have "length ys = w" unfolding ly by simp
    with False assms(1) show ?thesis by (simp add: trailing_mean_def ys_def del: upt_Suc)
  qed
  finally show ?thesis .
qed

lemma calculate_moving_averages_result:
  assumes "cols (h ! data0) ''Close'' = Some c"
    and "0 \<le> short_window self" and "0 \<le> long_window self"
  shows "calculate_moving_averages self h data0 =
    Inr (length h, h @ [(h ! data0)\<lparr>cols := (cols (h ! data0))
      (''SMA_short'' \<mapsto> roll_mean (nat (short_window self)) c,
       ''SMA_long'' \<mapsto> roll_mean (nat (long_window self)) c)\<rparr>])"
  using assms by (simp add: calculate_moving_averages_def store_defs rolling_mean_def)

text \<open>
  Claim C5. For positive windows \<open>calculate_moving_averages\<close> returns a table whose
  \<open>SMA_short\<close> (and \<open>SMA_long\<close>) has one entry per bar, missing on the first
  \<open>window - 1\<close> bars and equal, from bar \<open>window - 1\<close> on, to the arithmetic mean of the
  closing prices of the \<open>window\<close> bars ending at that bar.
\<close>

theorem moving_averages_are_trailing_means:
  assumes "cols (h ! data0) ''Close'' = Some (map Fin cs)"
    and "0 < short_window self" and "0 < long_window self"
  shows "\<exists>d h1 s l.
     calculate_moving_averages self h data0 = Inr (d, h1) \<and>
     cols (h1 ! d) ''SMA_short'' = Some s \<and> cols (h1 ! d) ''SMA_long'' = Some l \<and>
     length s = length cs \<and> length l = length cs \<and>
     (\<forall>t<length cs.
        (t < nat (short_window self) - 1 \<longrightarrow> s ! t = NaN) \<and>
        (nat (short_window self) - 1 \<le> t
           \<longrightarrow> s ! t = Fin (trailing_mean (nat (short_window self)) cs t)) \<and>
        (t < nat (long_window self) - 1 \<longrightarrow> l ! t = NaN) \<and>
        (nat (long_window self) - 1 \<le> t
           \<longrightarrow> l ! t = Fin (trailing_mean (nat (long_window self)) cs t)))"
proof -
  define s where "s = roll_mean (nat (short_window self)) (map Fin cs)"
  define l where "l = roll_mean (nat (long_window self)) (map Fin cs)"
  define h1 where "h1 = h @ [(h ! data0)\<lparr>cols := (cols (h ! data0))
      (''SMA_short'' \<mapsto> s, ''SMA_long'' \<mapsto> l)\<rparr>]"
  have run: "calculate_moving_averages self h data0 = Inr (length h, h1)"
    unfolding h1_def s_def l_def
    by (rule calculate_moving_averages_result) (use assms in simp_all)
  have c1: "cols (h1 ! length h) ''SMA_short'' = Some s"
    and c2: "cols (h1 ! length h) ''SMA_long'' = Some l"
    by (simp_all add: h1_def)
  have len: "length s = length cs" "length l = length cs"
    by (simp_all add: s_def l_def)
  have val: "\<forall>t<length cs.
        (t < nat (short_window self) - 1 \<longrightarrow> s ! t = NaN) \<and>
        (nat (short_window self) - 1 \<le> t
           \<longrightarrow> s ! t = Fin (trailing_mean (nat (short_window self)) cs t)) \<and>
        (t < nat (long_window self) - 1 \<longrightarrow> l ! t = NaN) \<and>
        (nat (long_window self) - 1 \<le> t
           \<longrightarrow> l ! t = Fin (trailing_mean (nat (long_window self)) cs t))"
    using assms(2,3) by (simp add: s_def l_def roll_mean_Fin)
  from run c1 c2 len val show ?thesis by (intro exI conjI)
qed

theorem moving_averages_are_trailing_means_witness:
  "cols ([ex_prices] ! 0) ''Close'' = Some (map Fin ex_close) \<and>
   0 < short_window ex_strategy \<and> 0 < long_window ex_strategy \<and>
   (\<exists>s l. table_col (calculate_moving_averages ex_strategy [ex_prices] 0) ''SMA_short'' = Some s \<and>
      table_col (calculate_moving_averages ex_strategy [ex_prices] 0) ''SMA_long'' = Some l \<and>
      s ! 0 = NaN \<and> s ! 1 = Fin 101 \<and> s ! 4 = Fin 106 \<and>
      l ! 1 = NaN \<and> l ! 2 = Fin 101 \<and> l ! 4 = Fin (313 / 3))"
proof -
  have h1: "cols ([ex_prices] ! 0) ''Close'' = Some (map Fin ex_close)"
    and h2: "0 < short_window ex_strategy" and h3: "0 < long_window ex_strategy"
    by (simp_all add: ex_prices_def ex_strategy_def)
  obtain d h1' s l where
    run: "calculate_moving_averages ex_strategy [ex_prices] 0 = Inr (d, h1')"
    and s: "cols (h1' ! d) ''SMA_short'' = Some s" and l: "cols (h1' ! d) ''SMA_long'' = Some l"
    and val: "\<forall>t<length ex_close.
        (t < nat (short_window ex_strategy) - 1 \<longrightarrow> s ! t = NaN) \<and>
        (nat (short_window ex_strategy) - 1 \<le> t
           \<longrightarrow> s ! t = Fin (trailing_mean (nat (short_window ex_strategy)) ex_close t)) \<and>
        (t < nat (long_window ex_strategy) - 1 \<longrightarrow> l ! t = NaN) \<and>
        (nat (long_window ex_strategy) - 1 \<le> t
           \<longrightarrow> l ! t = Fin (trailing_mean (nat (long_window ex_strategy)) ex_close t))"
    using moving_averages_are_trailing_means [OF h1 h2 h3]
    by (elim exE conjE) (rule that)
  have w: "nat (short_window ex_strategy) = 2" "nat (long_window ex_strategy) = 3"
    "length ex_close = 5"
    by (simp_all add: ex_strategy_def ex_close_def)
  have "s ! 0 = NaN" "s ! 1 = Fin 101" "s ! 4 = Fin 106"
    "l ! 1 = NaN" "l ! 2 = Fin 101" "l ! 4 = Fin (313 / 3)"
    using val [rule_format, of 0] val [rule_format, of 1] val [rule_format, of 2]
      val [rule_format, of 4]
    unfolding w by (simp_all add: trailing_mean_def ex_close_def upt_rec)
  moreover have "table_col (calculate_moving_averages ex_strategy [ex_prices] 0) ''SMA_short'' = Some s"
    "table_col (calculate_moving_averages ex_strategy [ex_prices] 0) ''SMA_long'' = Some l"
    using run s l by (simp_all add: table_col_def)
  ultimately show ?thesis using h1 h2 h3 by blast
qed

section \<open>Backtest: returns and portfolio value\<close>

lemma backtest_result:
  assumes "cols (h ! data0) ''Close'' = Some c" and "cols (h ! data0) ''Signal'' = Some sg"
  shows "backtest self h data0 ic =
      (if portfolio_values ic sg c = [] then Inl IndexError
       else Inr (metrics ic (strategy_returns sg c) (portfolio_values ic sg c)
                   (last (portfolio_values ic sg c)),
                 self\<lparr>portfolio_value := Some (portfolio_values ic sg c)\<rparr>, length h,
                 h @ [backtest_table (h ! data0) ic sg c]))"
  using assms
  by (simp add: backtest_def store_defs iloc_last_def strategy_returns_def portfolio_values_def
      backtest_table_def)

lemma backtest_table_cols:
  "cols (backtest_table f ic sg c) ''Returns'' = Some (pct_change c)"
  "cols (backtest_table f ic sg c) ''Strategy_returns'' = Some (strategy_returns sg c)"
  "cols (backtest_table f ic sg c) ''Portfolio_value'' = Some (portfolio_values ic sg c)"
  by (simp_all add: backtest_table_def)

lemma pct_change_length [simp]: "length (pct_change xs) = length xs"
  by (simp add: pct_change_def)

lemma pct_change_Fin:
  assumes "t < length cs" and "0 < t \<longrightarrow> cs ! (t - 1) \<noteq> 0"
  shows "pct_change (map Fin cs) ! t = (if t = 0 then NaN else Fin (spec_return cs t))"
proof (cases "t = 0")
  case True
  with assms(1) show ?thesis by (simp add: pct_change_def shift1_nth fsub_def)
next
  case False
  with assms have "pct_change (map Fin cs) ! t = Fin (cs ! t / cs ! (t - 1) - 1)"
    by (simp add: pct_change_def shift1_nth fsub_def)
  moreover have "cs ! t / cs ! (t - 1) - 1 = spec_return cs t"
    using False assms(2) by (simp add: spec_return_def field_simps)
  ultimately show ?thesis using False by simp
qed

lemma pct_change_nth:
  assumes "t < length cs"
  shows "pct_change (map Fin cs) ! t
           = (if t = 0 then NaN else fdiv (Fin (cs ! t - cs ! (t - 1))) (Fin (cs ! (t - 1))))"
  using assms by (simp add: pct_change_def shift1_nth fsub_def field_simps)

lemma strategy_returns_length [simp]:
  "length ss = length cs \<Longrightarrow> length (strategy_returns ss cs) = length cs"
  by (simp add: strategy_returns_def)

lemma strategy_returns_Fin:
  assumes "length ss = length cs" and "t < length cs" and "0 < t \<longrightarrow> cs ! (t - 1) \<noteq> 0"
  shows "strategy_returns (map Fin ss) (map Fin cs) ! t
           = (if t = 0 then NaN else Fin (spec_strategy_return ss cs t))"
  using assms pct_change_Fin [OF assms(2,3)]
  by (simp add: strategy_returns_def shift1_nth spec_strategy_return_def)

lemma strategy_returns_nth:
  assumes "length ss = length cs" and "t < length cs"
  shows "strategy_returns (map Fin ss) (map Fin cs) ! t
           = (if t = 0 then NaN
              else fmul (Fin (ss ! (t - 1))) (pct_change (map Fin cs) ! t))"
  using assms by (simp add: strategy_returns_def shift1_nth)

lemma cumprod_from_length [simp]: "length (cumprod_from a xs) = length xs"
  by (induction xs arbitrary: a) simp_all

lemma portfolio_values_length [simp]:
  "length ss = length cs \<Longrightarrow> length (portfolio_values ic ss cs) = length cs"
  by (simp add: portfolio_values_def cumprod_def)

text \<open>
  The portfolio value bar by bar, for any columns: it is missing where the strategy return
  is missing, and otherwise the compounding of the strategy returns present so far.
\<close>

lemma cumprod_from_nth:
  "j < length xs \<Longrightarrow>
   cumprod_from acc xs ! j
     = (if xs ! j = NaN then NaN else foldl fmul acc (notna (take (Suc j) xs)))"
proof (induction xs arbitrary: acc j)
  case Nil
  then show ?case by simp
next
  case (Cons x xs)
  show ?case
  proof (cases j)
    case 0
    then show ?thesis by (simp add: notna_def)
  next
    case (Suc i)
    with Cons.prems have "i < length xs" by simp
    from Cons.IH [OF this] Suc show ?thesis by (simp add: notna_def)
  qed
qed

lemma fadd_one_NaN: "fadd (Fin 1) x = NaN \<longleftrightarrow> x = NaN"
  by (cases x) simp_all

lemma notna_map_fadd: "notna (map (fadd (Fin 1)) xs) = map (fadd (Fin 1)) (notna xs)"
  by (induction xs) (simp_all add: notna_def fadd_one_NaN)

lemma fmul_NaN_right: "fmul a NaN = NaN"
  by (cases a) simp_all

lemma portfolio_values_nth:
  assumes "t < length (strategy_returns sg c)"
  shows "portfolio_values ic sg c ! t
           = (if strategy_returns sg c ! t = NaN then NaN
              else compounded ic (notna (take (Suc t) (strategy_returns sg c))))"
  using assms
  by (simp add: portfolio_values_def cumprod_def cumprod_from_nth compounded_def
      notna_map_fadd take_map fadd_one_NaN fmul_NaN_right)

text \<open>
  As long as no closing price before bar \<open>t\<close> is 0, every strategy return up to \<open>t\<close> is a
  number and the portfolio value is the product over the reals.
\<close>

lemma foldl_fmul_Fin: "foldl fmul (Fin a) (map Fin zs) = Fin (a * prod_list zs)"
  by (induction zs arbitrary: a) (simp_all add: mult.assoc)

lemma compounded_Fin: "compounded ic (map Fin zs) = Fin (ic * prod_list (map (\<lambda>z. 1 + z) zs))"
proof -
  have "map (fadd (Fin 1)) (map Fin zs) = map Fin (map (\<lambda>z. 1 + z) zs)"
    by (simp add: comp_def)
  then show ?thesis
    unfolding compounded_def by (simp only: foldl_fmul_Fin) simp
qed

lemma strategy_returns_prefix:
  assumes "length ss = length cs" and "t < length cs" and "\<forall>k<t. cs ! k \<noteq> 0"
  shows "take (Suc t) (strategy_returns (map Fin ss) (map Fin cs))
           = NaN # map (\<lambda>k. Fin (spec_strategy_return ss cs k)) [1..<Suc t]"
proof (intro nth_equalityI)
  show "length (take (Suc t) (strategy_returns (map Fin ss) (map Fin cs)))
          = length (NaN # map (\<lambda>k. Fin (spec_strategy_return ss cs k)) [1..<Suc t])"
    using assms(1,2) by (simp del: upt_Suc)
next
  fix k assume "k < length (take (Suc t) (strategy_returns (map Fin ss) (map Fin cs)))"
  then have k: "k \<le> t" using assms(1,2) by simp
  then have kl: "k < length cs" using assms(2) by simp
  have nz: "0 < k \<longrightarrow> cs ! (k - 1) \<noteq> 0" using assms(3) k by auto
  show "take (Suc t) (strategy_returns (map Fin ss) (map Fin cs)) ! k
          = (NaN # map (\<lambda>k. Fin (spec_strategy_return ss cs k)) [1..<Suc t]) ! k"
    using strategy_returns_Fin [OF assms(1) kl nz] k by (cases k) (simp_all del: upt_Suc)
qed

lemma portfolio_values_prefix:
  assumes "length ss = length cs" and "t < length cs" and "1 \<le> t" and "\<forall>k<t. cs ! k \<noteq> 0"
  shows "portfolio_values ic (map Fin ss) (map Fin cs) ! t
           = Fin (ic * prod_list (map (\<lambda>k. 1 + spec_strategy_return ss cs k) [1..<Suc t]))"
proof -
  have nz: "0 < t \<longrightarrow> cs ! (t - 1) \<noteq> 0" using assms(3,4) by auto
  have d: "strategy_returns (map Fin ss) (map Fin cs) ! t \<noteq> NaN"
    using strategy_returns_Fin [OF assms(1,2) nz] assms(3) by simp
  have "notna (take (Suc t) (strategy_returns (map Fin ss) (map Fin cs)))
          = map Fin (map (spec_strategy_return ss cs) [1..<Suc t])"
    unfolding strategy_returns_prefix [OF assms(1,2,4)] by (simp add: notna_def comp_def del: upt_Suc)
  then have "portfolio_values ic (map Fin ss) (map Fin cs) ! t
          = compounded ic (map Fin (map (spec_strategy_return ss cs) [1..<Suc t]))"
    using portfolio_values_nth [of t "map Fin ss" "map Fin cs" ic] assms(1,2) d by simp
  also have "\<dots> = Fin (ic * prod_list (map (\<lambda>z. 1 + z) (map (spec_strategy_return ss cs) [1..<Suc t])))"
    by (rule compounded_Fin)
  finally show ?thesis by (simp add: comp_def del: upt_Suc)
qed

lemma notna_defined_prefix:
  assumes "Suc t \<le> length xs" and "xs ! 0 = NaN" and "\<forall>k. 1 \<le> k \<and> k \<le> t \<longrightarrow> xs ! k \<noteq> NaN"
  shows "notna (take (Suc t) xs) = map ((!) xs) [1..<Suc t]"
proof -
  from assms(1) obtain x ys where xs: "xs = x # ys" by (cases xs) auto
  with assms(2) have x: "x = NaN" by simp
  have t: "t \<le> length ys" using assms(1) xs by simp
  have "\<forall>y \<in> set (take t ys). y \<noteq> NaN"
  proof
    fix y assume "y \<in> set (take t ys)"
    then obtain i where i: "i < t" "y = ys ! i"
      using t by (auto simp: in_set_conv_nth)
    with assms(3) [rule_format, of "Suc i"] xs show "y \<noteq> NaN" by simp
  qed
  then have "notna (take t ys) = take t ys" by (simp add: notna_def)
  moreover have "take t ys = map ((!) xs) [1..<Suc t]"
    using t by (intro nth_equalityI) (simp_all add: xs del: upt_Suc)
  ultimately show ?thesis by (simp add: xs x notna_def del: upt_Suc)
qed

text \<open>
  Claim C1, as the code has it. On a series of at least two bars, with any closing prices,
  signals and initial capital, \<open>backtest\<close> returns and its columns satisfy the following.
  \<open>Returns\<close>, \<open>Strategy_returns\<close> and \<open>Portfolio_value\<close> are all missing at bar 0, which
  has no previous bar. At every later bar \<open>t\<close>, \<open>Returns[t]\<close> is
  \<open>(Close[t] - Close[t-1]) / Close[t-1]\<close> (an infinity or missing when \<open>Close[t-1] = 0\<close>) and
  \<open>Strategy_returns[t] = Signal[t-1] * Returns[t]\<close>, the signal of the previous bar against
  the return of the current one. \<open>Portfolio_value[t]\<close> is missing when \<open>Strategy_returns[t]\<close>
  is, and otherwise the initial capital times the product of \<open>1 + Strategy_returns[k]\<close> over
  the bars \<open>k \<le> t\<close> whose strategy return is present; when the strategy returns of all the
  bars \<open>1..t\<close> are present this is the product over \<open>k = 1..t\<close>, and when no closing price
  before bar \<open>t\<close> is 0 the three values are the real numbers the formulas give.
  \<open>total_return\<close> is \<open>(Portfolio_value[last] - initial_capital) / initial_capital\<close>.
\<close>

theorem backtest_formulas_from_bar_one:
  assumes "cols (h ! data0) ''Close'' = Some (map Fin cs)"
    and "cols (h ! data0) ''Signal'' = Some (map Fin ss)"
    and "length ss = length cs" and "2 \<le> length cs"
  shows "\<exists>res self1 d h1 rets srs pvs.
     backtest self h data0 ic = Inr (res, self1, d, h1) \<and>
     cols (h1 ! d) ''Returns'' = Some rets \<and>
     cols (h1 ! d) ''Strategy_returns'' = Some srs \<and>
     cols (h1 ! d) ''Portfolio_value'' = Some pvs \<and>
     length rets = length cs \<and> length srs = length cs \<and> length pvs = length cs \<and>
     rets ! 0 = NaN \<and> srs ! 0 = NaN \<and> pvs ! 0 = NaN \<and>
     (\<forall>t. 1 \<le> t \<and> t < length cs \<longrightarrow>
        rets ! t = fdiv (Fin (cs ! t - cs ! (t - 1))) (Fin (cs ! (t - 1))) \<and>
        srs ! t = fmul (Fin (ss ! (t - 1))) (rets ! t) \<and>
        pvs ! t = (if srs ! t = NaN then NaN else compounded ic (notna (take (Suc t) srs))) \<and>
        ((\<forall>k. 1 \<le> k \<and> k \<le> t \<longrightarrow> srs ! k \<noteq> NaN) \<longrightarrow>
           pvs ! t = compounded ic (map ((!) srs) [1..<Suc t])) \<and>
        ((\<forall>k<t. cs ! k \<noteq> 0) \<longrightarrow>
           rets ! t = Fin ((cs ! t - cs ! (t - 1)) / cs ! (t - 1)) \<and>
           srs ! t = Fin (ss ! (t - 1) * spec_return cs t) \<and>
           pvs ! t = Fin (ic * prod_list (map (\<lambda>k. 1 + spec_strategy_return ss cs k) [1..<Suc t])))) \<and>
     total_return res = fdiv (fsub (pvs ! (length cs - 1)) (Fin ic)) (Fin ic) \<and>
     final_portfolio_value res = pvs ! (length cs - 1)"
proof -
  define rets where "rets = pct_change (map Fin cs)"
  define srs where "srs = strategy_returns (map Fin ss) (map Fin cs)"
  define pvs where "pvs = portfolio_values ic (map Fin ss) (map Fin cs)"
  define res where "res = metrics ic srs pvs (last pvs)"
  define h1 where "h1 = h @ [backtest_table (h ! data0) ic (map Fin ss) (map Fin cs)]"
  have len: "length rets = length cs" "length srs = length cs" "length pvs = length cs"
    using assms(3) by (simp_all add: rets_def srs_def pvs_def)
  then have ne: "pvs \<noteq> []" using assms(4) by auto
  have run: "backtest self h data0 ic = Inr (res, self\<lparr>portfolio_value := Some pvs\<rparr>, length h, h1)"
    using backtest_result [OF assms(1,2), of self ic] ne
    by (simp add: res_def srs_def pvs_def h1_def)
  have c1: "cols (h1 ! length h) ''Returns'' = Some rets"
    and c2: "cols (h1 ! length h) ''Strategy_returns'' = Some srs"
    and c3: "cols (h1 ! length h) ''Portfolio_value'' = Some pvs"
    by (simp_all add: h1_def backtest_table_cols rets_def srs_def pvs_def)
  have pos: "0 < length cs" using assms(4) by linarith
  have r0: "rets ! 0 = NaN"
    using pct_change_nth [OF pos] by (simp add: rets_def)
  have s0: "srs ! 0 = NaN"
    using strategy_returns_nth [OF assms(3) pos] by (simp add: srs_def)
  have pv: "pvs ! t = (if srs ! t = NaN then NaN else compounded ic (notna (take (Suc t) srs)))"
    if "t < length cs" for t
    using portfolio_values_nth [of t "map Fin ss" "map Fin cs" ic] that len(2)
    by (simp add: pvs_def srs_def)
  have p0: "pvs ! 0 = NaN" using pv [OF pos] s0 by simp
  have vals: "\<forall>t. 1 \<le> t \<and> t < length cs \<longrightarrow>
        rets ! t = fdiv (Fin (cs ! t - cs ! (t - 1))) (Fin (cs ! (t - 1))) \<and>
        srs ! t = fmul (Fin (ss ! (t - 1))) (rets ! t) \<and>
        pvs ! t = (if srs ! t = NaN then NaN else compounded ic (notna (take (Suc t) srs))) \<and>
        ((\<forall>k. 1 \<le> k \<and> k \<le> t \<longrightarrow> srs ! k \<noteq> NaN) \<longrightarrow>
           pvs ! t = compounded ic (map ((!) srs) [1..<Suc t])) \<and>
        ((\<forall>k<t. cs ! k \<noteq> 0) \<longrightarrow>
           rets ! t = Fin ((cs ! t - cs ! (t - 1)) / cs ! (t - 1)) \<and>
           srs ! t = Fin (ss ! (t - 1) * spec_return cs t) \<and>
           pvs ! t = Fin (ic * prod_list (map (\<lambda>k. 1 + spec_strategy_return ss cs k) [1..<Suc t])))"
  proof (intro allI impI)
    fix t assume "1 \<le> t \<and> t < length cs"
    then have t: "1 \<le> t" "t < length cs" by simp_all
    have a: "rets ! t = fdiv (Fin (cs ! t - cs ! (t - 1))) (Fin (cs ! (t - 1)))"
      using pct_change_nth [OF t(2)] t(1) by (simp add: rets_def)
    have b: "srs ! t = fmul (Fin (ss ! (t - 1))) (rets ! t)"
      using strategy_returns_nth [OF assms(3) t(2)] t(1) by (simp add: srs_def rets_def)
    have c: "pvs ! t = (if srs ! t = NaN then NaN else compounded ic (notna (take (Suc t) srs)))"
      by (rule pv [OF t(2)])
    have d: "(\<forall>k. 1 \<le> k \<and> k \<le> t \<longrightarrow> srs ! k \<noteq> NaN) \<longrightarrow>
           pvs ! t = compounded ic (map ((!) srs) [1..<Suc t])"
    proof
      assume def: "\<forall>k. 1 \<le> k \<and> k \<le> t \<longrightarrow> srs ! k \<noteq> NaN"
      have "Suc t \<le> length srs" using t(2) len(2) by simp
      from notna_defined_prefix [OF this s0 def] def t(1) c
      show "pvs ! t = compounded ic (map ((!) srs) [1..<Suc t])" by simp
    qed
    have e: "(\<forall>k<t. cs ! k \<noteq> 0) \<longrightarrow>
           rets ! t = Fin ((cs ! t - cs ! (t - 1)) / cs ! (t - 1)) \<and>
           srs ! t = Fin (ss ! (t - 1) * spec_return cs t) \<and>
           pvs ! t = Fin (ic * prod_list (map (\<lambda>k. 1 + spec_strategy_return ss cs k) [1..<Suc t]))"
    proof
      assume nzs: "\<forall>k<t. cs ! k \<noteq> 0"
      with t(1) have nz: "0 < t \<longrightarrow> cs ! (t - 1) \<noteq> 0" by auto
      have "rets ! t = Fin ((cs ! t - cs ! (t - 1)) / cs ! (t - 1))"
        using pct_change_Fin [OF t(2) nz] t(1) by (simp add: rets_def spec_return_def)
      moreover have "srs ! t = Fin (ss ! (t - 1) * spec_return cs t)"
        using strategy_returns_Fin [OF assms(3) t(2) nz] t(1)
        by (simp add: srs_def spec_strategy_return_def)
      moreover have "pvs ! t = Fin (ic * prod_list (map (\<lambda>k. 1 + spec_strategy_return ss cs k) [1..<Suc t]))"
        unfolding pvs_def by (rule portfolio_values_prefix [OF assms(3) t(2) t(1) nzs])
      ultimately show "rets ! t = Fin ((cs ! t - cs ! (t - 1)) / cs ! (t - 1)) \<and>
           srs ! t = Fin (ss ! (t - 1) * spec_return cs t) \<and>
           pvs ! t = Fin (ic * prod_list (map (\<lambda>k. 1 + spec_strategy_return ss cs k) [1..<Suc t]))"
        by (intro conjI)
    qed
    from a b c d e show "rets ! t = fdiv (Fin (cs ! t - cs ! (t - 1))) (Fin (cs ! (t - 1))) \<and>
        srs ! t = fmul (Fin (ss ! (t - 1))) (rets ! t) \<and>
        pvs ! t = (if srs ! t = NaN then NaN else compounded ic (notna (take (Suc t) srs))) \<and>
        ((\<forall>k. 1 \<le> k \<and> k \<le> t \<longrightarrow> srs ! k \<noteq> NaN) \<longrightarrow>
           pvs ! t = compounded ic (map ((!) srs) [1..<Suc t])) \<and>
        ((\<forall>k<t. cs ! k \<noteq> 0) \<longrightarrow>
           rets ! t = Fin ((cs ! t - cs ! (t - 1)) / cs ! (t - 1)) \<and>
           srs ! t = Fin (ss ! (t - 1) * spec_return cs t) \<and>
           pvs ! t = Fin (ic * prod_list (map (\<lambda>k. 1 + spec_strategy_return ss cs k) [1..<Suc t])))"
      by (intro conjI)
  qed
  have lastv: "last pvs = pvs ! (length cs - 1)"
    using ne len(3) by (simp add: last_conv_nth)
  have tr: "total_return res = fdiv (fsub (pvs ! (length cs - 1)) (Fin ic)) (Fin ic)"
    and fv: "final_portfolio_value res = pvs ! (length cs - 1)"
    by (simp_all add: res_def metrics_def Let_def lastv)
  from run c1 c2 c3 len r0 s0 p0 vals tr fv show ?thesis by (intro exI conjI)
qed

text \<open>
  The columns of two runs with capital 1000: the example prices, and three bars whose first
  closing price is 0.
\<close>

lemma ex_signals_columns:
  "backtest_col (backtest ex_strategy [ex_signals] 0 1000) ''Portfolio_value''
     = Some [NaN, Fin 1000, Fin 1000, Fin (105000 / 101), Fin (107000 / 101)]"
proof -
  have c: "cols ([ex_signals] ! 0) ''Close'' = Some [Fin 100, Fin 102, Fin 101, Fin 105, Fin 107]"
    and s: "cols ([ex_signals] ! 0) ''Signal'' = Some [Fin 0, Fin 0, Fin 1, Fin 1, Fin 1]"
    by (simp_all add: ex_signals_def ex_close_def ex_signal_def)
  have pv: "portfolio_values 1000 [Fin 0, Fin 0, Fin 1, Fin 1, Fin 1]
              [Fin 100, Fin 102, Fin 101, Fin 105, Fin 107]
          = [NaN, Fin 1000, Fin 1000, Fin (105000 / 101), Fin (107000 / 101)]"
    by (simp add: portfolio_values_def strategy_returns_def pct_change_def shift1_def
        cumprod_def fsub_def)
  show ?thesis
    unfolding backtest_result [OF c s, of ex_strategy 1000] pv
    by (simp add: backtest_col_def backtest_table_cols pv)
qed

lemma gap_signals_columns:
  "backtest_col (backtest ex_strategy [gap_signals] 0 1000) ''Strategy_returns''
     = Some [NaN, NaN, Fin 1]"
  "backtest_col (backtest ex_strategy [gap_signals] 0 1000) ''Portfolio_value''
     = Some [NaN, NaN, Fin 2000]"
proof -
  have c: "cols ([gap_signals] ! 0) ''Close'' = Some [Fin 0, Fin 1, Fin 2]"
    and s: "cols ([gap_signals] ! 0) ''Signal'' = Some [Fin 0, Fin 1, Fin 1]"
    by (simp_all add: gap_signals_def)
  have sr: "strategy_returns [Fin 0, Fin 1, Fin 1] [Fin 0, Fin 1, Fin 2] = [NaN, NaN, Fin 1]"
    by (simp add: strategy_returns_def pct_change_def shift1_def fsub_def)
  have pv: "portfolio_values 1000 [Fin 0, Fin 1, Fin 1] [Fin 0, Fin 1, Fin 2]
          = [NaN, NaN, Fin 2000]"
    by (simp add: portfolio_values_def sr cumprod_def)
  show "backtest_col (backtest ex_strategy [gap_signals] 0 1000) ''Strategy_returns''
     = Some [NaN, NaN, Fin 1]"
    unfolding backtest_result [OF c s, of ex_strategy 1000] pv
    by (simp add: backtest_col_def backtest_table_cols sr)
  show "backtest_col (backtest ex_strategy [gap_signals] 0 1000) ''Portfolio_value''
     = Some [NaN, NaN, Fin 2000]"
    unfolding backtest_result [OF c s, of ex_strategy 1000] pv
    by (simp add: backtest_col_def backtest_table_cols pv)
qed

text \<open>
  At bar 0 the product of the claim is empty, so its formula gives the initial capital 1000,
  while the column holds no value there. After the closing price 0 the strategy return of
  bar 1 is \<open>0 * inf\<close>, which is missing: the claim's product over the bars 1 and 2 is then
  missing as well, while the column skips bar 1 and holds 2000 at bar 2.
\<close>

theorem portfolio_value_starts_undefined_counterexample:
  "backtest_col (backtest ex_strategy [ex_signals] 0 1000) ''Portfolio_value''
     = Some [NaN, Fin 1000, Fin 1000, Fin (105000 / 101), Fin (107000 / 101)] \<and>
   spec_portfolio_value 1000 ex_signal ex_close 0 = 1000 \<and>
   backtest_col (backtest ex_strategy [gap_signals] 0 1000) ''Strategy_returns''
     = Some [NaN, NaN, Fin 1] \<and>
   backtest_col (backtest ex_strategy [gap_signals] 0 1000) ''Portfolio_value''
     = Some [NaN, NaN, Fin 2000] \<and>
   compounded 1000 [NaN, Fin 1] = NaN"
  using ex_signals_columns gap_signals_columns
  by (simp add: spec_portfolio_value_def compounded_def)

theorem backtest_formulas_from_bar_one_witness:
  "cols ([ex_signals] ! 0) ''Close'' = Some (map Fin ex_close) \<and>
   cols ([ex_signals] ! 0) ''Signal'' = Some (map Fin ex_signal) \<and>
   length ex_signal = length ex_close \<and> 2 \<le> length ex_close \<and>
   (\<exists>res srs pvs. backtest_results (backtest ex_strategy [ex_signals] 0 1000) = Some res \<and>
      backtest_col (backtest ex_strategy [ex_signals] 0 1000) ''Strategy_returns'' = Some srs \<and>
      backtest_col (backtest ex_strategy [ex_signals] 0 1000) ''Portfolio_value'' = Some pvs \<and>
      0 \<notin> set (take 4 ex_close) \<and>
      srs ! 1 \<noteq> NaN \<and> srs ! 2 \<noteq> NaN \<and>
      pvs ! 0 = NaN \<and> pvs ! 2 = Fin 1000 \<and> pvs ! 2 = compounded 1000 [srs ! 1, srs ! 2] \<and>
      pvs ! 4 = Fin (107000 / 101) \<and>
      total_return res = Fin (6 / 101))"
proof -
  have h1: "cols ([ex_signals] ! 0) ''Close'' = Some (map Fin ex_close)"
    and h2: "cols ([ex_signals] ! 0) ''Signal'' = Some (map Fin ex_signal)"
    and h3: "length ex_signal = length ex_close" and h4: "2 \<le> length ex_close"
    by (simp_all add: ex_signals_def ex_close_def ex_signal_def)
  obtain res self1 d h1' rets srs pvs where
    run: "backtest ex_strategy [ex_signals] 0 1000 = Inr (res, self1, d, h1')"
    and cs: "cols (h1' ! d) ''Strategy_returns'' = Some srs"
    and c: "cols (h1' ! d) ''Portfolio_value'' = Some pvs"
    and p0: "pvs ! 0 = NaN"
    and vals: "\<forall>t. 1 \<le> t \<and> t < length ex_close \<longrightarrow>
        rets ! t = fdiv (Fin (ex_close ! t - ex_close ! (t - 1))) (Fin (ex_close ! (t - 1))) \<and>
        srs ! t = fmul (Fin (ex_signal ! (t - 1))) (rets ! t) \<and>
        pvs ! t = (if srs ! t = NaN then NaN else compounded 1000 (notna (take (Suc t) srs))) \<and>
        ((\<forall>k. 1 \<le> k \<and> k \<le> t \<longrightarrow> srs ! k \<noteq> NaN) \<longrightarrow>
           pvs ! t = compounded 1000 (map ((!) srs) [1..<Suc t])) \<and>
        ((\<forall>k<t. ex_close ! k \<noteq> 0) \<longrightarrow>
           rets ! t = Fin ((ex_close ! t - ex_close ! (t - 1)) / ex_close ! (t - 1)) \<and>
           srs ! t = Fin (ex_signal ! (t - 1) * spec_return ex_close t) \<and>
           pvs ! t = Fin (1000 * prod_list (map (\<lambda>k. 1 + spec_strategy_return ex_signal ex_close k) [1..<Suc t])))"
    and tr: "total_return res = fdiv (fsub (pvs ! (length ex_close - 1)) (Fin 1000)) (Fin 1000)"
    using backtest_formulas_from_bar_one [OF h1 h2 h3 h4, of ex_strategy 1000]
    by (elim exE conjE) (rule that)
  have nz: "\<forall>k<n. ex_close ! k \<noteq> 0" if "n \<le> 4" for n
  proof (intro allI impI)
    fix k assume "k < n"
    with that have "k = 0 \<or> k = 1 \<or> k = 2 \<or> k = 3" by auto
    then show "ex_close ! k \<noteq> 0" by (auto simp: ex_close_def)
  qed
  have bar: "1 \<le> t \<and> t < length ex_close" if "t = 1 \<or> t = 2 \<or> t = 4" for t
    using that by (auto simp: ex_close_def)
  have sv: "srs ! t = Fin (ex_signal ! (t - 1) * spec_return ex_close t)"
    and pv: "pvs ! t = Fin (1000 * prod_list (map (\<lambda>k. 1 + spec_strategy_return ex_signal ex_close k) [1..<Suc t]))"
    if "t = 1 \<or> t = 2 \<or> t = 4" for t
  proof -
    from that have "t \<le> 4" by auto
    from vals [rule_format, OF bar [OF that]] nz [OF this]
    show "srs ! t = Fin (ex_signal ! (t - 1) * spec_return ex_close t)"
      and "pvs ! t = Fin (1000 * prod_list (map (\<lambda>k. 1 + spec_strategy_return ex_signal ex_close k) [1..<Suc t]))"
      by blast+
  qed
  have s1: "srs ! 1 = Fin 0"
    using sv [of 1] by (simp add: ex_signal_def)
  have s2: "srs ! 2 = Fin 0"
    using sv [of 2] by (simp add: ex_signal_def)
  have p2: "pvs ! 2 = Fin 1000"
    using pv [of 2]
    by (simp add: ex_close_def ex_signal_def spec_strategy_return_def spec_return_def upt_rec)
  have p4: "pvs ! 4 = Fin (107000 / 101)"
    using pv [of 4]
    by (simp add: ex_close_def ex_signal_def spec_strategy_return_def spec_return_def upt_rec)
  have defd: "\<forall>k. 1 \<le> k \<and> k \<le> 2 \<longrightarrow> srs ! k \<noteq> NaN"
  proof (intro allI impI)
    fix k :: nat assume "1 \<le> k \<and> k \<le> 2"
    then have "k = 1 \<or> k = 2" by auto
    then show "srs ! k \<noteq> NaN" using s1 s2 by auto
  qed
  have "pvs ! 2 = compounded 1000 (map ((!) srs) [1..<Suc 2])"
    using vals [rule_format, OF bar [of 2]] defd by blast
  moreover have "[1..<Suc 2] = [1, 2]" by (simp add: upt_rec)
  ultimately have p2c: "pvs ! 2 = compounded 1000 [srs ! 1, srs ! 2]" by simp
  have "length ex_close - 1 = 4" by (simp add: ex_close_def)
  with tr p4 have t: "total_return res = Fin (6 / 101)" by (simp add: fsub_def)
  have z: "0 \<notin> set (take 4 ex_close)" by (simp add: ex_close_def)
  have "backtest_results (backtest ex_strategy [ex_signals] 0 1000) = Some res"
    "backtest_col (backtest ex_strategy [ex_signals] 0 1000) ''Strategy_returns'' = Some srs"
    "backtest_col (backtest ex_strategy [ex_signals] 0 1000) ''Portfolio_value'' = Some pvs"
    using run c cs by (simp_all add: backtest_results_def backtest_col_def)
  moreover have "srs ! 1 \<noteq> NaN" "srs ! 2 \<noteq> NaN" using s1 s2 by simp_all
  ultimately show ?thesis using z p0 p2 p2c p4 t h1 h2 h3 h4 by (intro conjI exI)
qed

section \<open>Backtest: maximum drawdown\<close>

lemma fmax_Fin [simp]: "fmax (Fin a) (Fin b) = Fin (max a b)"
  by (simp add: fmax_def max_def)

lemma fmin_Fin [simp]: "fmin (Fin a) (Fin b) = Fin (min a b)"
  by (auto simp: fmin_def min_def)



lemma expanding_max_from_length [simp]: "length (expanding_max_from acc xs) = length xs"
  by (induction xs arbitrary: acc) (simp_all add: Let_def)





lemma fsub_Fin [simp]: "fsub (Fin a) (Fin b) = Fin (a - b)"
  by (simp add: fsub_def)

lemma fsub_NaN_left [simp]: "fsub NaN b = NaN"
  by (simp add: fsub_def)

lemma expanding_max_length [simp]: "length (expanding_max xs) = length xs"
  by (simp add: expanding_max_def)

lemma drawdown_col_length [simp]: "length (drawdown_col xs) = length xs"
  by (simp add: drawdown_col_def Let_def)







subsection \<open>The running maximum\<close>





subsection \<open>The order of the minimum\<close>







subsection \<open>A defined drawdown is never positive\<close>











subsection \<open>A path that starts at zero\<close>






subsection \<open>The maximum drawdown of a backtest\<close>











section \<open>Every stage works on a copy\<close>

lemma ebind_InrE:
  assumes "ebind m f = Inr y"
  obtains x where "m = Inr x" and "f x = Inr y"
  using assms by (cases m) simp_all

lemma df_set_length [simp]: "length (df_set h r c xs) = length h"
  by (simp add: df_set_def)

lemma df_set_scalar_length [simp]: "length (df_set_scalar h r c v) = length h"
  by (simp add: df_set_scalar_def)

lemma df_set_take [simp]: "n \<le> r \<Longrightarrow> take n (df_set h r c xs) = take n h"
  by (simp add: df_set_def)

lemma df_set_scalar_take [simp]: "n \<le> r \<Longrightarrow> take n (df_set_scalar h r c v) = take n h"
  by (simp add: df_set_scalar_def)

lemma kept_nth: "take n h1 = h \<Longrightarrow> r < n \<Longrightarrow> h1 ! r = h ! r"
  by (metis nth_take)

lemma calculate_moving_averages_frame:
  assumes "calculate_moving_averages self h data0 = Inr (d, h1)"
  shows "d = length h \<and> length h1 = Suc (length h) \<and> take (length h) h1 = h"
  using assms unfolding calculate_moving_averages_def df_copy_def Let_def
  by (auto elim!: ebind_InrE)

lemma calculate_rsi_frame:
  assumes "calculate_rsi self h data0 period = Inr (d, h1)"
  shows "d = length h \<and> length h1 = Suc (length h) \<and> take (length h) h1 = h"
  using assms unfolding calculate_rsi_def df_copy_def Let_def
  by (auto elim!: ebind_InrE)

lemma calculate_macd_frame:
  assumes "calculate_macd self h data0 fast slow sig_span = Inr (d, h1)"
  shows "d = length h \<and> length h1 = Suc (length h) \<and> take (length h) h1 = h"
  using assms unfolding calculate_macd_def df_copy_def Let_def
  by (auto elim!: ebind_InrE)

lemma calculate_bollinger_bands_frame:
  assumes "calculate_bollinger_bands self h data0 period k = Inr (d, h1)"
  shows "d = length h \<and> length h1 = Suc (length h) \<and> take (length h) h1 = h"
  using assms unfolding calculate_bollinger_bands_def df_copy_def Let_def
  by (auto elim!: ebind_InrE)

lemma generate_signals_frame:
  assumes "generate_signals self h data0 = Inr (self1, d, h1)"
  shows "d = length h \<and> length h1 = Suc (length h) \<and> take (length h) h1 = h"
  using assms unfolding generate_signals_def df_copy_def Let_def
  by (auto elim!: ebind_InrE)

lemma backtest_frame:
  assumes "backtest self h data0 ic = Inr (res, self1, d, h1)"
  shows "d = length h \<and> length h1 = Suc (length h) \<and> take (length h) h1 = h"
  using assms unfolding backtest_def df_copy_def Let_def
  by (auto elim!: ebind_InrE)

text \<open>
  Claim C9. Whenever a stage returns (the four indicator calculations, signal generation,
  the backtest), the table it worked on is a new one, at a reference the store did not have
  before the call, and every table that existed before the call, the input among them, is
  the same after the call as before.
\<close>

theorem stages_leave_input_unchanged:
  assumes "data0 < length h"
  shows "(calculate_moving_averages self h data0 = Inr (d1, h1)
            \<longrightarrow> d1 = length h \<and> take (length h) h1 = h \<and> h1 ! data0 = h ! data0) \<and>
         (calculate_rsi self h data0 period = Inr (d2, h2)
            \<longrightarrow> d2 = length h \<and> take (length h) h2 = h \<and> h2 ! data0 = h ! data0) \<and>
         (calculate_macd self h data0 fast slow sig_span = Inr (d3, h3)
            \<longrightarrow> d3 = length h \<and> take (length h) h3 = h \<and> h3 ! data0 = h ! data0) \<and>
         (calculate_bollinger_bands self h data0 bb_period k = Inr (d4, h4)
            \<longrightarrow> d4 = length h \<and> take (length h) h4 = h \<and> h4 ! data0 = h ! data0) \<and>
         (generate_signals self h data0 = Inr (self5, d5, h5)
            \<longrightarrow> d5 = length h \<and> take (length h) h5 = h \<and> h5 ! data0 = h ! data0) \<and>
         (backtest self h data0 ic = Inr (res, self6, d6, h6)
            \<longrightarrow> d6 = length h \<and> take (length h) h6 = h \<and> h6 ! data0 = h ! data0)"
  using assms calculate_moving_averages_frame [of self h data0 d1 h1]
    calculate_rsi_frame [of self h data0 period d2 h2]
    calculate_macd_frame [of self h data0 fast slow sig_span d3 h3]
    calculate_bollinger_bands_frame [of self h data0 bb_period k d4 h4]
    generate_signals_frame [of self h data0 self5 d5 h5]
    backtest_frame [of self h data0 ic res self6 d6 h6]
  by (auto intro: kept_nth)

lemma ex_prices_averages:
  "calculate_moving_averages ex_strategy [ex_prices] 0 =
     Inr (1, [ex_prices, ex_prices\<lparr>cols := (cols ex_prices)
       (''SMA_short'' \<mapsto> roll_mean 2 (map Fin ex_close),
        ''SMA_long'' \<mapsto> roll_mean 3 (map Fin ex_close))\<rparr>])"
  using calculate_moving_averages_result [of "[ex_prices]" 0 "map Fin ex_close" ex_strategy]
  by (simp add: ex_prices_def ex_strategy_def)

lemma ex_signals_backtest:
  "portfolio_values ic (map Fin ex_signal) (map Fin ex_close) \<noteq> []"
  "backtest ex_strategy [ex_signals] 0 ic =
     Inr (metrics ic (strategy_returns (map Fin ex_signal) (map Fin ex_close))
            (portfolio_values ic (map Fin ex_signal) (map Fin ex_close))
            (last (portfolio_values ic (map Fin ex_signal) (map Fin ex_close))),
          ex_strategy\<lparr>portfolio_value :=
            Some (portfolio_values ic (map Fin ex_signal) (map Fin ex_close))\<rparr>, 1,
          [ex_signals, backtest_table ex_signals ic (map Fin ex_signal) (map Fin ex_close)])"
proof -
  have "length (portfolio_values ic (map Fin ex_signal) (map Fin ex_close)) = 5"
    by (simp add: ex_signal_def ex_close_def)
  then show ne: "portfolio_values ic (map Fin ex_signal) (map Fin ex_close) \<noteq> []"
    by auto
  have "cols ([ex_signals] ! 0) ''Close'' = Some (map Fin ex_close)"
    "cols ([ex_signals] ! 0) ''Signal'' = Some (map Fin ex_signal)"
    by (simp_all add: ex_signals_def)
  from backtest_result [OF this, of ex_strategy ic] ne
  show "backtest ex_strategy [ex_signals] 0 ic =
     Inr (metrics ic (strategy_returns (map Fin ex_signal) (map Fin ex_close))
            (portfolio_values ic (map Fin ex_signal) (map Fin ex_close))
            (last (portfolio_values ic (map Fin ex_signal) (map Fin ex_close))),
          ex_strategy\<lparr>portfolio_value :=
            Some (portfolio_values ic (map Fin ex_signal) (map Fin ex_close))\<rparr>, 1,
          [ex_signals, backtest_table ex_signals ic (map Fin ex_signal) (map Fin ex_close)])"
    by simp
qed

theorem stages_leave_input_unchanged_witness:
  "(0::nat) < length [ex_prices] \<and>
   (\<exists>d h1. calculate_moving_averages ex_strategy [ex_prices] 0 = Inr (d, h1) \<and>
      d = 1 \<and> take 1 h1 = [ex_prices] \<and> h1 ! 0 = ex_prices) \<and>
   (\<exists>self1 d h1. generate_signals ex_strategy [ex_indicators] 0 = Inr (self1, d, h1) \<and>
      d = 1 \<and> take 1 h1 = [ex_indicators] \<and> h1 ! 0 = ex_indicators) \<and>
   (\<exists>res self1 d h1. backtest ex_strategy [ex_signals] 0 1000 = Inr (res, self1, d, h1) \<and>
      d = 1 \<and> take 1 h1 = [ex_signals] \<and> h1 ! 0 = ex_signals)"
proof -
  obtain d1 h1 where r1: "calculate_moving_averages ex_strategy [ex_prices] 0 = Inr (d1, h1)"
    using ex_prices_averages by blast
  obtain self2 d2 h2 where r2: "generate_signals ex_strategy [ex_indicators] 0 = Inr (self2, d2, h2)"
    using ex_indicators_signals by blast
  obtain res self3 d3 h3 where r3: "backtest ex_strategy [ex_signals] 0 1000 = Inr (res, self3, d3, h3)"
    using ex_signals_backtest(2) by blast
  have "d1 = 1 \<and> take 1 h1 = [ex_prices] \<and> h1 ! 0 = ex_prices"
    using stages_leave_input_unchanged [where ?data0.0 = 0 and h = "[ex_prices]"
        and self = ex_strategy and ?d1.0 = d1 and ?h1.0 = h1] r1 by simp
  moreover have "d2 = 1 \<and> take 1 h2 = [ex_indicators] \<and> h2 ! 0 = ex_indicators"
    using stages_leave_input_unchanged [where ?data0.0 = 0 and h = "[ex_indicators]"
        and self = ex_strategy and ?self5.0 = self2 and ?d5.0 = d2 and ?h5.0 = h2] r2
    by simp
  moreover have "d3 = 1 \<and> take 1 h3 = [ex_signals] \<and> h3 ! 0 = ex_signals"
    using stages_leave_input_unchanged [where ?data0.0 = 0 and h = "[ex_signals]"
        and self = ex_strategy and ic = 1000 and res = res and ?self6.0 = self3
        and ?d6.0 = d3 and ?h6.0 = h3] r3
    by simp
  ultimately show ?thesis using r1 r2 r3 by simp
qed

section \<open>What is checked of the configuration\<close>

lemma rolling_mean_negative: "w < 0 \<Longrightarrow> rolling_mean w xs = Inl ValueError"
  by (simp add: rolling_mean_def)

lemma rolling_std_negative: "w < 0 \<Longrightarrow> rolling_std w xs = Inl ValueError"
  by (simp add: rolling_std_def)

lemma ewm_mean_nonpositive: "n \<le> 0 \<Longrightarrow> ewm_mean n xs = Inl ValueError"
  by (simp add: ewm_mean_def)

lemma ewm_mean_cases: "ewm_mean n xs = Inl ValueError \<or> (\<exists>ys. ewm_mean n xs = Inr ys)"
  by (simp add: ewm_mean_def)

lemma rolling_mean_cases: "rolling_mean w xs = Inl ValueError \<or> (\<exists>ys. rolling_mean w xs = Inr ys)"
  by (simp add: rolling_mean_def)

lemma roll_mean_zero: "roll_mean 0 xs = replicate (length xs) NaN"
  by (simp add: roll_mean_def window_def window_mean_def notna_def map_replicate_const)

lemma moving_averages_negative_window:
  assumes "cols (h ! data0) ''Close'' = Some c"
    and "short_window self < 0 \<or> long_window self < 0"
  shows "calculate_moving_averages self h data0 = Inl ValueError"
  using assms rolling_mean_cases [of "short_window self" c]
  by (auto simp: calculate_moving_averages_def store_defs rolling_mean_negative)

lemma rsi_negative_period:
  assumes "cols (h ! data0) ''Close'' = Some c" and "period < 0"
  shows "calculate_rsi self h data0 period = Inl ValueError"
  using assms
  by (simp add: calculate_rsi_def store_defs rsi_gain_def rolling_mean_negative)

lemma bollinger_negative_period:
  assumes "cols (h ! data0) ''Close'' = Some c" and "period < 0"
  shows "calculate_bollinger_bands self h data0 period k = Inl ValueError"
  using assms
  by (simp add: calculate_bollinger_bands_def store_defs rolling_mean_negative)

lemma macd_nonpositive_span:
  assumes "cols (h ! data0) ''Close'' = Some c"
    and "fast \<le> 0 \<or> slow \<le> 0 \<or> sig_span \<le> 0"
  shows "calculate_macd self h data0 fast slow sig_span = Inl ValueError"
proof -
  consider "ewm_mean fast c = Inl ValueError"
    | f where "ewm_mean fast c = Inr f" "ewm_mean slow c = Inl ValueError"
    | f s where "ewm_mean fast c = Inr f" "ewm_mean slow c = Inr s" "sig_span \<le> 0"
    using assms(2) ewm_mean_cases [of fast c] ewm_mean_cases [of slow c]
      ewm_mean_nonpositive [of fast c] ewm_mean_nonpositive [of slow c]
    by auto
  then show ?thesis
  proof cases
    case 1
    then show ?thesis using assms(1) by (simp add: calculate_macd_def store_defs)
  next
    case 2
    then show ?thesis using assms(1) by (simp add: calculate_macd_def store_defs)
  next
    case 3
    then show ?thesis
      using assms(1) by (simp add: calculate_macd_def store_defs ewm_mean_nonpositive)
  qed
qed

lemma moving_averages_zero_window:
  assumes "cols (h ! data0) ''Close'' = Some c"
    and "0 \<le> short_window self" and "0 \<le> long_window self"
  shows "\<exists>d h1. calculate_moving_averages self h data0 = Inr (d, h1) \<and>
           (short_window self = 0
              \<longrightarrow> cols (h1 ! d) ''SMA_short'' = Some (replicate (length c) NaN)) \<and>
           (long_window self = 0
              \<longrightarrow> cols (h1 ! d) ''SMA_long'' = Some (replicate (length c) NaN))"
  using calculate_moving_averages_result [OF assms(1), of self] assms(2,3)
  by (simp add: roll_mean_zero)

lemma backtest_any_capital:
  assumes "cols (h ! data0) ''Close'' = Some c" and "cols (h ! data0) ''Signal'' = Some sg"
    and "length sg = length c" and "c \<noteq> []"
  shows "\<exists>res self1 d h1. backtest self h data0 ic = Inr (res, self1, d, h1) \<and>
           total_return res = fdiv (fsub (final_portfolio_value res) (Fin ic)) (Fin ic)"
proof -
  have "length (portfolio_values ic sg c) = length c"
    using assms(3) by simp
  with assms(4) have "portfolio_values ic sg c \<noteq> []" by auto
  with backtest_result [OF assms(1,2), of self ic] show ?thesis
    by (simp add: metrics_def Let_def)
qed

text \<open>
  Claim C8, as the code has it. The constructor stores any two windows and never raises.
  An indicator call raises a \<open>ValueError\<close>, before it returns any table, when a window or
  period is negative or a span is at most 0: the check is the one pandas makes when the
  rolling or exponentially weighted window is built. A moving-average window of 0 passes
  that check and gives a column without values. \<open>backtest\<close> makes no check of the initial
  capital: with a capital at most 0, on a non-empty series, it returns its metrics,
  computed with that capital.
\<close>

theorem configuration_checks:
  shows "init sw lw =
           Inr \<lparr>short_window = sw, long_window = lw, signals = None, portfolio_value = None\<rparr> \<and>
         (cols (h ! data0) ''Close'' = Some c \<and> (short_window self < 0 \<or> long_window self < 0)
            \<longrightarrow> calculate_moving_averages self h data0 = Inl ValueError) \<and>
         (cols (h ! data0) ''Close'' = Some c \<and> period < 0
            \<longrightarrow> calculate_rsi self h data0 period = Inl ValueError) \<and>
         (cols (h ! data0) ''Close'' = Some c \<and> period < 0
            \<longrightarrow> calculate_bollinger_bands self h data0 period k = Inl ValueError) \<and>
         (cols (h ! data0) ''Close'' = Some c \<and> (fast \<le> 0 \<or> slow \<le> 0 \<or> sig_span \<le> 0)
            \<longrightarrow> calculate_macd self h data0 fast slow sig_span = Inl ValueError) \<and>
         (cols (h ! data0) ''Close'' = Some c \<and> 0 \<le> short_window self \<and> 0 \<le> long_window self
            \<longrightarrow> (\<exists>d h1. calculate_moving_averages self h data0 = Inr (d, h1) \<and>
                   (short_window self = 0
                      \<longrightarrow> cols (h1 ! d) ''SMA_short'' = Some (replicate (length c) NaN)) \<and>
                   (long_window self = 0
                      \<longrightarrow> cols (h1 ! d) ''SMA_long'' = Some (replicate (length c) NaN)))) \<and>
         (cols (h ! data0) ''Close'' = Some c \<and> cols (h ! data0) ''Signal'' = Some sg \<and>
          length sg = length c \<and> c \<noteq> [] \<and> ic \<le> 0
            \<longrightarrow> (\<exists>res self1 d h1. backtest self h data0 ic = Inr (res, self1, d, h1) \<and>
                   total_return res = fdiv (fsub (final_portfolio_value res) (Fin ic)) (Fin ic)))"
  using moving_averages_negative_window [of h data0 c self]
    rsi_negative_period [of h data0 c period self]
    bollinger_negative_period [of h data0 c period self k]
    macd_nonpositive_span [of h data0 c fast slow sig_span self]
    moving_averages_zero_window [of h data0 c self]
    backtest_any_capital [of h data0 c sg self ic]
  by (simp add: init_def)

lemma ex_negative_capital:
  "map_option total_return (backtest_results (backtest ex_strategy [ex_signals] 0 (- 1000)))
     = Some (Fin (6 / 101))"
proof -
  have pv: "portfolio_values (- 1000) (map Fin ex_signal) (map Fin ex_close)
          = [NaN, Fin (- 1000), Fin (- 1000), Fin (- (105000 / 101)), Fin (- (107000 / 101))]"
    by (simp add: portfolio_values_def strategy_returns_def pct_change_def shift1_def
        cumprod_def ex_signal_def ex_close_def)
  show ?thesis
    unfolding ex_signals_backtest(2) [of "- 1000"]
    by (simp add: backtest_results_def metrics_def Let_def pv)
qed

theorem configuration_checks_witness:
  "cols ([ex_prices] ! 0) ''Close'' = Some (map Fin ex_close) \<and>
   short_window (ex_strategy\<lparr>short_window := - 1\<rparr>) < 0 \<and>
   calculate_moving_averages (ex_strategy\<lparr>short_window := - 1\<rparr>) [ex_prices] 0 = Inl ValueError \<and>
   calculate_rsi ex_strategy [ex_prices] 0 (- 14) = Inl ValueError \<and>
   calculate_macd ex_strategy [ex_prices] 0 12 0 9 = Inl ValueError \<and>
   cols ([ex_signals] ! 0) ''Signal'' = Some (map Fin ex_signal) \<and>
   (\<exists>res self1 d h1. backtest ex_strategy [ex_signals] 0 (- 1000) = Inr (res, self1, d, h1))"
proof -
  have c: "cols ([ex_prices] ! 0) ''Close'' = Some (map Fin ex_close)"
    and w: "short_window (ex_strategy\<lparr>short_window := - 1\<rparr>) < 0"
    and c2: "cols ([ex_signals] ! 0) ''Close'' = Some (map Fin ex_close)"
    and s2: "cols ([ex_signals] ! 0) ''Signal'' = Some (map Fin ex_signal)"
    and l2: "length (map Fin ex_signal) = length (map Fin ex_close)" "map Fin ex_close \<noteq> []"
    by (simp_all add: ex_prices_def ex_signals_def ex_strategy_def ex_signal_def ex_close_def)
  have neg: "(- 1000::real) \<le> 0" by simp
  have "calculate_moving_averages (ex_strategy\<lparr>short_window := - 1\<rparr>) [ex_prices] 0 = Inl ValueError"
    using configuration_checks [where h = "[ex_prices]" and ?data0.0 = 0
        and c = "map Fin ex_close" and self = "ex_strategy\<lparr>short_window := - 1\<rparr>"] c w
    by blast
  moreover have "calculate_rsi ex_strategy [ex_prices] 0 (- 14) = Inl ValueError"
    using configuration_checks [where h = "[ex_prices]" and ?data0.0 = 0
        and c = "map Fin ex_close" and period = "- 14" and self = ex_strategy] c
    by simp
  moreover have "calculate_macd ex_strategy [ex_prices] 0 12 0 9 = Inl ValueError"
    using configuration_checks [where h = "[ex_prices]" and ?data0.0 = 0
        and c = "map Fin ex_close" and fast = 12 and slow = 0 and sig_span = 9
        and self = ex_strategy] c
    by simp
  moreover have "\<exists>res self1 d h1. backtest ex_strategy [ex_signals] 0 (- 1000) = Inr (res, self1, d, h1)"
    using configuration_checks [where h = "[ex_signals]" and ?data0.0 = 0
        and c = "map Fin ex_close" and sg = "map Fin ex_signal" and ic = "- 1000"
        and self = ex_strategy] c2 s2 l2 neg
    by blast
  ultimately show ?thesis using c w s2 by blast
qed

text \<open>
  The constructor accepts the windows 0 and -5; the backtest of the example with the capital
  -1000 returns a total return of 6/101; with a short window of 0 every entry of
  \<open>SMA_short\<close> is missing.
\<close>

theorem unchecked_configuration_counterexample:
  "init 0 (- 5) =
     Inr \<lparr>short_window = 0, long_window = - 5, signals = None, portfolio_value = None\<rparr> \<and>
   map_option total_return (backtest_results (backtest ex_strategy [ex_signals] 0 (- 1000)))
     = Some (Fin (6 / 101)) \<and>
   table_col (calculate_moving_averages (ex_strategy\<lparr>short_window := 0\<rparr>) [ex_prices] 0)
     ''SMA_short'' = Some [NaN, NaN, NaN, NaN, NaN]"
proof -
  have c: "cols ([ex_prices] ! 0) ''Close'' = Some (map Fin ex_close)"
    by (simp add: ex_prices_def)
  have "table_col (calculate_moving_averages (ex_strategy\<lparr>short_window := 0\<rparr>) [ex_prices] 0)
     ''SMA_short'' = Some [NaN, NaN, NaN, NaN, NaN]"
    using calculate_moving_averages_result [OF c, of "ex_strategy\<lparr>short_window := 0\<rparr>"]
    by (simp add: table_col_def ex_strategy_def roll_mean_zero ex_close_def)
  then show ?thesis using ex_negative_capital by (simp add: init_def)
qed

section \<open>Relative strength index\<close>

lemma diff_col_Fin:
  "t < length cs \<Longrightarrow>
   diff_col (map Fin cs) ! t = (if t = 0 then NaN else Fin (cs ! t - cs ! (t - 1)))"
  by (simp add: diff_col_nth)

lemma where_gain:
  "where_else0 (\<lambda>d. flt (Fin 0) d) (diff_col (map Fin cs)) = map Fin (bar_gain cs)"
  by (intro nth_equalityI) (auto simp: where_else0_def bar_gain_def diff_col_Fin max_def)

lemma where_loss:
  "map fneg (where_else0 (\<lambda>d. flt d (Fin 0)) (diff_col (map Fin cs))) = map Fin (bar_loss cs)"
  by (intro nth_equalityI) (auto simp: where_else0_def bar_loss_def diff_col_Fin max_def)

lemma bar_gain_nonneg: "x \<in> set (bar_gain cs) \<Longrightarrow> 0 \<le> x"
  by (auto simp: bar_gain_def)

lemma bar_loss_nonneg: "x \<in> set (bar_loss cs) \<Longrightarrow> 0 \<le> x"
  by (auto simp: bar_loss_def)

lemma trailing_mean_nonneg:
  assumes "\<forall>x\<in>set xs. 0 \<le> x" and "t < length xs"
  shows "0 \<le> trailing_mean w xs t"
proof -
  have "0 \<le> sum_list (map ((!) xs) [Suc t - w..<Suc t])"
    using assms by (intro sum_list_nonneg) (auto simp del: upt_Suc)
  then show ?thesis by (simp add: trailing_mean_def del: upt_Suc)
qed

lemma rsi_of_Fin:
  assumes "0 \<le> g" and "0 \<le> l"
  shows "rsi_of (Fin g) (Fin l) =
     (if l = 0 then (if g = 0 then NaN else Fin 100) else Fin (100 - 100 / (1 + g / l)))"
proof (cases "l = 0")
  case True
  with assms show ?thesis by (auto simp: rsi_of_def)
next
  case False
  with assms have "0 < 1 + g / l" by (simp add: add_pos_nonneg)
  with False show ?thesis by (simp add: rsi_of_def)
qed

lemma rsi_value_range:
  fixes g l :: real
  assumes "0 \<le> g" and "0 < l"
  shows "0 \<le> 100 - 100 / (1 + g / l)" and "100 - 100 / (1 + g / l) < 100"
proof -
  have "1 \<le> 1 + g / l" using assms by simp
  then have "100 / (1 + g / l) \<le> 100" and "0 < 100 / (1 + g / l)"
    by (simp_all add: divide_le_eq add_pos_nonneg assms)
  then show "0 \<le> 100 - 100 / (1 + g / l)" and "100 - 100 / (1 + g / l) < 100"
    by simp_all
qed

lemma rsi_of_NaN [simp]: "rsi_of NaN b = NaN" "rsi_of a NaN = NaN"
  by (cases a; simp add: rsi_of_def)+

lemma calculate_rsi_result:
  assumes "cols (h ! data0) ''Close'' = Some (map Fin cs)" and "0 \<le> period"
  shows "rsi_gain period (map Fin cs) = Inr (roll_mean (nat period) (map Fin (bar_gain cs)))"
    and "rsi_loss period (map Fin cs) = Inr (roll_mean (nat period) (map Fin (bar_loss cs)))"
    and "calculate_rsi self h data0 period =
      Inr (length h, h @ [(h ! data0)\<lparr>cols := (cols (h ! data0))
        (''RSI'' \<mapsto> map2 rsi_of (roll_mean (nat period) (map Fin (bar_gain cs)))
                               (roll_mean (nat period) (map Fin (bar_loss cs))))\<rparr>])"
proof -
  show g: "rsi_gain period (map Fin cs) = Inr (roll_mean (nat period) (map Fin (bar_gain cs)))"
    using assms(2) by (simp add: rsi_gain_def where_gain rolling_mean_def)
  show l: "rsi_loss period (map Fin cs) = Inr (roll_mean (nat period) (map Fin (bar_loss cs)))"
    using assms(2) by (simp add: rsi_loss_def where_loss rolling_mean_def)
  show "calculate_rsi self h data0 period =
      Inr (length h, h @ [(h ! data0)\<lparr>cols := (cols (h ! data0))
        (''RSI'' \<mapsto> map2 rsi_of (roll_mean (nat period) (map Fin (bar_gain cs)))
                               (roll_mean (nat period) (map Fin (bar_loss cs))))\<rparr>])"
    using assms(1) by (simp add: calculate_rsi_def store_defs g l)
qed

lemma bar_gain_length [simp]: "length (bar_gain cs) = length cs"
  by (simp add: bar_gain_def)

lemma bar_loss_length [simp]: "length (bar_loss cs) = length cs"
  by (simp add: bar_loss_def)

lemma rsi_bar:
  assumes "0 < p" and "t < length cs"
  defines "gain \<equiv> roll_mean p (map Fin (bar_gain cs))"
    and "loss \<equiv> roll_mean p (map Fin (bar_loss cs))"
  shows "t < p - 1 \<longrightarrow> map2 rsi_of gain loss ! t = NaN"
    and "p - 1 \<le> t \<longrightarrow> (\<exists>g l. gain ! t = Fin g \<and> loss ! t = Fin l \<and> 0 \<le> g \<and> 0 \<le> l \<and>
           (map2 rsi_of gain loss ! t = Fin 100 \<longleftrightarrow> l = 0 \<and> 0 < g) \<and>
           (map2 rsi_of gain loss ! t = NaN \<longleftrightarrow> l = 0 \<and> g = 0) \<and>
           (0 < l \<longrightarrow> map2 rsi_of gain loss ! t = Fin (100 - 100 / (1 + g / l))))"
    and "\<forall>v. map2 rsi_of gain loss ! t = Fin v \<longrightarrow> 0 \<le> v \<and> v \<le> 100"
    and "map2 rsi_of gain loss ! t \<noteq> PInf \<and> map2 rsi_of gain loss ! t \<noteq> NInf"
proof -
  define g where "g = trailing_mean p (bar_gain cs) t"
  define l where "l = trailing_mean p (bar_loss cs) t"
  have nth: "map2 rsi_of gain loss ! t = rsi_of (gain ! t) (loss ! t)"
    using assms(2) by (simp add: gain_def loss_def)
  have gt: "gain ! t = (if t < p - 1 then NaN else Fin g)"
    unfolding gain_def g_def by (rule roll_mean_Fin) (use assms in simp_all)
  have lt: "loss ! t = (if t < p - 1 then NaN else Fin l)"
    unfolding loss_def l_def by (rule roll_mean_Fin) (use assms in simp_all)
  have g0: "0 \<le> g"
    unfolding g_def by (rule trailing_mean_nonneg) (use assms(2) bar_gain_nonneg in auto)
  have l0: "0 \<le> l"
    unfolding l_def by (rule trailing_mean_nonneg) (use assms(2) bar_loss_nonneg in auto)
  have val: "rsi_of (Fin g) (Fin l) =
     (if l = 0 then (if g = 0 then NaN else Fin 100) else Fin (100 - 100 / (1 + g / l)))"
    by (rule rsi_of_Fin [OF g0 l0])
  have rng: "0 \<le> 100 - 100 / (1 + g / l)" "100 - 100 / (1 + g / l) < 100" if "l \<noteq> 0"
    using rsi_value_range [OF g0, of l] l0 that by simp_all
  show "t < p - 1 \<longrightarrow> map2 rsi_of gain loss ! t = NaN"
    by (simp add: nth gt)
  show "p - 1 \<le> t \<longrightarrow> (\<exists>g l. gain ! t = Fin g \<and> loss ! t = Fin l \<and> 0 \<le> g \<and> 0 \<le> l \<and>
           (map2 rsi_of gain loss ! t = Fin 100 \<longleftrightarrow> l = 0 \<and> 0 < g) \<and>
           (map2 rsi_of gain loss ! t = NaN \<longleftrightarrow> l = 0 \<and> g = 0) \<and>
           (0 < l \<longrightarrow> map2 rsi_of gain loss ! t = Fin (100 - 100 / (1 + g / l))))"
  proof
    assume "p - 1 \<le> t"
    then have a: "gain ! t = Fin g" "loss ! t = Fin l" using gt lt by simp_all
    have "(map2 rsi_of gain loss ! t = Fin 100 \<longleftrightarrow> l = 0 \<and> 0 < g) \<and>
           (map2 rsi_of gain loss ! t = NaN \<longleftrightarrow> l = 0 \<and> g = 0) \<and>
           (0 < l \<longrightarrow> map2 rsi_of gain loss ! t = Fin (100 - 100 / (1 + g / l)))"
      unfolding nth a val using g0 l0 rng by auto
    with a g0 l0 show "\<exists>g l. gain ! t = Fin g \<and> loss ! t = Fin l \<and> 0 \<le> g \<and> 0 \<le> l \<and>
           (map2 rsi_of gain loss ! t = Fin 100 \<longleftrightarrow> l = 0 \<and> 0 < g) \<and>
           (map2 rsi_of gain loss ! t = NaN \<longleftrightarrow> l = 0 \<and> g = 0) \<and>
           (0 < l \<longrightarrow> map2 rsi_of gain loss ! t = Fin (100 - 100 / (1 + g / l)))"
      by blast
  qed
  have cases: "map2 rsi_of gain loss ! t = NaN \<or> map2 rsi_of gain loss ! t = Fin 100 \<or>
      (l \<noteq> 0 \<and> map2 rsi_of gain loss ! t = Fin (100 - 100 / (1 + g / l)))"
    unfolding nth gt lt using val by (cases "t < p - 1") auto
  then show "\<forall>v. map2 rsi_of gain loss ! t = Fin v \<longrightarrow> 0 \<le> v \<and> v \<le> 100"
    using rng by auto
  from cases show "map2 rsi_of gain loss ! t \<noteq> PInf \<and> map2 rsi_of gain loss ! t \<noteq> NInf"
    by auto
qed

text \<open>
  Claim C3, as the code has it. For a positive period the RSI column is missing on the
  first \<open>period - 1\<close> bars; from then on the average gain and the average loss are
  numbers \<open>g, l \<ge> 0\<close>, and the RSI is 100 exactly when \<open>l = 0\<close> and \<open>g > 0\<close> (the quotient
  \<open>g / l\<close> is then infinite: there is no explicit policy), it is missing exactly when
  \<open>l = 0\<close> and \<open>g = 0\<close> (the quotient \<open>0 / 0\<close> has no value), and it is
  \<open>100 - 100 / (1 + g / l)\<close> otherwise. Every RSI value that is present lies in \<open>[0, 100]\<close>.
\<close>

theorem rsi_degenerate_cases:
  assumes "cols (h ! data0) ''Close'' = Some (map Fin cs)" and "0 < period"
  shows "\<exists>d h1 rsi gain loss.
     calculate_rsi self h data0 period = Inr (d, h1) \<and>
     cols (h1 ! d) ''RSI'' = Some rsi \<and>
     rsi_gain period (map Fin cs) = Inr gain \<and> rsi_loss period (map Fin cs) = Inr loss \<and>
     length rsi = length cs \<and>
     (\<forall>t<length cs.
        (t < nat period - 1 \<longrightarrow> rsi ! t = NaN) \<and>
        (nat period - 1 \<le> t \<longrightarrow>
           (\<exists>g l. gain ! t = Fin g \<and> loss ! t = Fin l \<and> 0 \<le> g \<and> 0 \<le> l \<and>
              (rsi ! t = Fin 100 \<longleftrightarrow> l = 0 \<and> 0 < g) \<and>
              (rsi ! t = NaN \<longleftrightarrow> l = 0 \<and> g = 0) \<and>
              (0 < l \<longrightarrow> rsi ! t = Fin (100 - 100 / (1 + g / l))))) \<and>
        (\<forall>v. rsi ! t = Fin v \<longrightarrow> 0 \<le> v \<and> v \<le> 100) \<and>
        rsi ! t \<noteq> PInf \<and> rsi ! t \<noteq> NInf)"
proof -
  define gain where "gain = roll_mean (nat period) (map Fin (bar_gain cs))"
  define loss where "loss = roll_mean (nat period) (map Fin (bar_loss cs))"
  define rsi where "rsi = map2 rsi_of gain loss"
  define h1 where "h1 = h @ [(h ! data0)\<lparr>cols := (cols (h ! data0))(''RSI'' \<mapsto> rsi)\<rparr>]"
  have p: "0 \<le> period" "0 < nat period" using assms(2) by simp_all
  have run: "calculate_rsi self h data0 period = Inr (length h, h1)"
    unfolding h1_def rsi_def gain_def loss_def
    by (rule calculate_rsi_result(3) [OF assms(1) p(1)])
  have c: "cols (h1 ! length h) ''RSI'' = Some rsi" by (simp add: h1_def)
  have g: "rsi_gain period (map Fin cs) = Inr gain"
    unfolding gain_def by (rule calculate_rsi_result(1) [OF assms(1) p(1)])
  have l: "rsi_loss period (map Fin cs) = Inr loss"
    unfolding loss_def by (rule calculate_rsi_result(2) [OF assms(1) p(1)])
  have len: "length rsi = length cs" by (simp add: rsi_def gain_def loss_def)
  have bars: "\<forall>t<length cs.
        (t < nat period - 1 \<longrightarrow> rsi ! t = NaN) \<and>
        (nat period - 1 \<le> t \<longrightarrow>
           (\<exists>g l. gain ! t = Fin g \<and> loss ! t = Fin l \<and> 0 \<le> g \<and> 0 \<le> l \<and>
              (rsi ! t = Fin 100 \<longleftrightarrow> l = 0 \<and> 0 < g) \<and>
              (rsi ! t = NaN \<longleftrightarrow> l = 0 \<and> g = 0) \<and>
              (0 < l \<longrightarrow> rsi ! t = Fin (100 - 100 / (1 + g / l))))) \<and>
        (\<forall>v. rsi ! t = Fin v \<longrightarrow> 0 \<le> v \<and> v \<le> 100) \<and>
        rsi ! t \<noteq> PInf \<and> rsi ! t \<noteq> NInf"
    unfolding rsi_def gain_def loss_def
    using rsi_bar [OF p(2), of _ cs] by (intro allI impI conjI) blast+
  from run c g l len bars show ?thesis by (intro exI conjI)
qed

lemmas column_eval = rolling_mean_def roll_mean_def window_def window_mean_def notna_def
  fsum_def where_else0_def diff_col_def shift1_def fsub_def upt_rec

lemma flat_prices_averages:
  "rsi_gain 2 (map Fin [1, 1, 1]) = Inr [NaN, Fin 0, Fin 0]"
  "rsi_loss 2 (map Fin [1, 1, 1]) = Inr [NaN, Fin 0, Fin 0]"
  by (simp_all add: rsi_gain_def rsi_loss_def column_eval)

text \<open>
  On three bars of constant price with period 2 both averages are 0 at bars 1 and 2, and the
  RSI is missing there, not 50.
\<close>

theorem rsi_undefined_on_flat_prices_counterexample:
  "rsi_gain 2 (map Fin [1, 1, 1]) = Inr [NaN, Fin 0, Fin 0] \<and>
   rsi_loss 2 (map Fin [1, 1, 1]) = Inr [NaN, Fin 0, Fin 0] \<and>
   table_col (calculate_rsi ex_strategy [flat_prices] 0 2) ''RSI'' = Some [NaN, NaN, NaN]"
proof -
  have "cols ([flat_prices] ! 0) ''Close'' = Some (map Fin [1, 1, 1])"
    by (simp add: flat_prices_def)
  then have "table_col (calculate_rsi ex_strategy [flat_prices] 0 2) ''RSI'' = Some [NaN, NaN, NaN]"
    using flat_prices_averages
    by (simp add: calculate_rsi_def store_defs table_col_def rsi_of_def)
  with flat_prices_averages show ?thesis by simp
qed

lemma ex_prices_averages_rsi:
  "rsi_gain 2 (map Fin ex_close) = Inr [NaN, Fin 1, Fin 1, Fin 2, Fin 3]"
  "rsi_loss 2 (map Fin ex_close) = Inr [NaN, Fin 0, Fin (1 / 2), Fin (1 / 2), Fin 0]"
  by (simp_all add: rsi_gain_def rsi_loss_def column_eval ex_close_def)

theorem rsi_degenerate_cases_witness:
  "cols ([ex_prices] ! 0) ''Close'' = Some (map Fin ex_close) \<and> (0::int) < 2 \<and>
   (\<exists>rsi. table_col (calculate_rsi ex_strategy [ex_prices] 0 2) ''RSI'' = Some rsi \<and>
      rsi ! 0 = NaN \<and> rsi ! 1 = Fin 100 \<and> rsi ! 2 = Fin (200 / 3))"
proof -
  have h1: "cols ([ex_prices] ! 0) ''Close'' = Some (map Fin ex_close)"
    by (simp add: ex_prices_def)
  have h2: "(0::int) < 2" by simp
  obtain d h1' rsi gain loss where
    run: "calculate_rsi ex_strategy [ex_prices] 0 2 = Inr (d, h1')"
    and c: "cols (h1' ! d) ''RSI'' = Some rsi"
    and g: "rsi_gain 2 (map Fin ex_close) = Inr gain"
    and l: "rsi_loss 2 (map Fin ex_close) = Inr loss"
    and bars: "\<forall>t<length ex_close.
        (t < nat 2 - 1 \<longrightarrow> rsi ! t = NaN) \<and>
        (nat 2 - 1 \<le> t \<longrightarrow>
           (\<exists>g l. gain ! t = Fin g \<and> loss ! t = Fin l \<and> 0 \<le> g \<and> 0 \<le> l \<and>
              (rsi ! t = Fin 100 \<longleftrightarrow> l = 0 \<and> 0 < g) \<and>
              (rsi ! t = NaN \<longleftrightarrow> l = 0 \<and> g = 0) \<and>
              (0 < l \<longrightarrow> rsi ! t = Fin (100 - 100 / (1 + g / l))))) \<and>
        (\<forall>v. rsi ! t = Fin v \<longrightarrow> 0 \<le> v \<and> v \<le> 100) \<and>
        rsi ! t \<noteq> PInf \<and> rsi ! t \<noteq> NInf"
    using rsi_degenerate_cases [OF h1 h2, of ex_strategy]
    by (elim exE conjE) (rule that)
  have gv: "gain = [NaN, Fin 1, Fin 1, Fin 2, Fin 3]"
    and lv: "loss = [NaN, Fin 0, Fin (1 / 2), Fin (1 / 2), Fin 0]"
    using g l ex_prices_averages_rsi by simp_all
  have n: "length ex_close = 5" by (simp add: ex_close_def)
  have r0: "rsi ! 0 = NaN" using bars [rule_format, of 0] n by simp
  have r1: "rsi ! 1 = Fin 100" using bars [rule_format, of 1] n by (auto simp: gv lv)
  have r2: "rsi ! 2 = Fin (200 / 3)"
  proof -
    from bars [rule_format, of 2] n obtain g l where
      gl: "gain ! 2 = Fin g" "loss ! 2 = Fin l"
      and v: "0 < l \<longrightarrow> rsi ! 2 = Fin (100 - 100 / (1 + g / l))"
      by auto
    from gl have "g = 1" "l = 1 / 2" by (simp_all add: gv lv)
    with v show ?thesis by simp
  qed
  have "table_col (calculate_rsi ex_strategy [ex_prices] 0 2) ''RSI'' = Some rsi"
    using run c by (simp add: table_col_def)
  with r0 r1 r2 h1 h2 show ?thesis by blast
qed

section \<open>Exponential moving averages and MACD\<close>

lemma weights_positive:
  fixes q :: real
  assumes "0 \<le> q"
  shows "0 < (\<Sum>i\<le>j. q ^ i)"
proof (induction j)
  case 0
  then show ?case by simp
next
  case (Suc j)
  have "0 \<le> q ^ Suc j" using assms by simp
  with Suc show ?case by (simp add: add_pos_nonneg del: power_Suc)
qed

lemma shifted_sum:
  fixes q :: real
  shows "(\<Sum>k\<le>Suc i. q ^ k * (y # ys) ! (Suc i - k))
           = q ^ Suc i * y + (\<Sum>k\<le>i. q ^ k * ys ! (i - k))"
proof -
  have "(\<Sum>k\<le>i. q ^ k * (y # ys) ! (Suc i - k)) = (\<Sum>k\<le>i. q ^ k * ys ! (i - k))"
    by (intro sum.cong) (simp_all add: Suc_diff_le)
  then show ?thesis by simp
qed

lemma ewm_loop_Fin:
  assumes "0 \<le> 1 - alpha" and "0 < D" and "j < length ys"
  shows "ewm_loop alpha (Fin (N / D)) D (map Fin ys) ! j =
     Fin (((1 - alpha) ^ Suc j * N + (\<Sum>i\<le>j. (1 - alpha) ^ i * ys ! (j - i)))
          / ((1 - alpha) ^ Suc j * D + (\<Sum>i\<le>j. (1 - alpha) ^ i)))"
  using assms(2,3)
proof (induction ys arbitrary: N D j)
  case Nil
  then show ?case by simp
next
  case (Cons y ys)
  define q where "q = 1 - alpha"
  define N1 where "N1 = q * N + y"
  define D1 where "D1 = q * D + 1"
  have q0: "0 \<le> q" using assms(1) by (simp add: q_def)
  have D1pos: "0 < D1" using q0 Cons.prems(1) by (simp add: D1_def add_nonneg_pos)
  have Dnz: "D \<noteq> 0" using Cons.prems(1) by simp
  have step: "(if Fin (N / D) \<noteq> Fin y
         then fdiv (fadd (fmul (Fin (D * q)) (Fin (N / D))) (fmul (Fin 1) (Fin y)))
                   (Fin (D * q + 1))
         else Fin (N / D)) = Fin (N1 / D1)"
  proof (cases "N / D = y")
    case True
    then have "N = y * D" using Dnz by (simp add: field_simps)
    then have "N1 = y * D1" by (simp add: N1_def D1_def algebra_simps)
    then have "N1 / D1 = y" using D1pos by simp
    with True show ?thesis by simp
  next
    case False
    have "D * q + 1 \<noteq> 0" using D1pos by (simp add: D1_def mult.commute)
    moreover have "D * q * (N / D) + y = N1" using Dnz by (simp add: N1_def)
    moreover have "D * q + 1 = D1" by (simp add: D1_def mult.commute)
    ultimately show ?thesis using False by simp
  qed
  have unfold: "ewm_loop alpha (Fin (N / D)) D (Fin y # map Fin ys)
          = Fin (N1 / D1) # ewm_loop alpha (Fin (N1 / D1)) D1 (map Fin ys)"
    using step by (simp add: Let_def q_def [symmetric] D1_def mult.commute)
  show ?case
  proof (cases j)
    case 0
    have "ewm_loop alpha (Fin (N / D)) D (map Fin (y # ys)) ! 0 = Fin (N1 / D1)"
      using unfold by (simp del: ewm_loop.simps)
    then show ?thesis
      unfolding 0 by (simp add: N1_def D1_def q_def)
  next
    case (Suc i)
    with Cons.prems have i: "i < length ys" by simp
    have "ewm_loop alpha (Fin (N / D)) D (map Fin (y # ys)) ! Suc i
        = ewm_loop alpha (Fin (N1 / D1)) D1 (map Fin ys) ! i"
      using unfold by (simp del: ewm_loop.simps)
    also have "\<dots> = Fin ((q ^ Suc i * N1 + (\<Sum>k\<le>i. q ^ k * ys ! (i - k)))
               / (q ^ Suc i * D1 + (\<Sum>k\<le>i. q ^ k)))"
      unfolding q_def by (rule Cons.IH [OF D1pos i])
    also have "q ^ Suc i * N1 + (\<Sum>k\<le>i. q ^ k * ys ! (i - k))
        = q ^ Suc (Suc i) * N + (\<Sum>k\<le>Suc i. q ^ k * (y # ys) ! (Suc i - k))"
      unfolding shifted_sum by (simp add: N1_def algebra_simps)
    also have "q ^ Suc i * D1 + (\<Sum>k\<le>i. q ^ k)
        = q ^ Suc (Suc i) * D + (\<Sum>k\<le>Suc i. q ^ k)"
      by (simp add: D1_def algebra_simps)
    finally show ?thesis unfolding Suc q_def .
  qed
qed

lemma ewm_loop_length [simp]: "length (ewm_loop alpha w ow xs) = length xs"
  by (induction xs arbitrary: w ow) (simp_all add: Let_def)

lemma ewm_run_length [simp]: "length (ewm_run alpha xs) = length xs"
  by (cases xs) (simp_all add: ewm_run_def)

lemma ewm_run_Fin:
  assumes "0 \<le> 1 - alpha" and "t < length xs"
  shows "ewm_run alpha (map Fin xs) ! t = Fin (ewm_weighted_mean alpha xs t)"
proof -
  from assms(2) obtain x rest where xs: "xs = x # rest" by (cases xs) auto
  show ?thesis
  proof (cases t)
    case 0
    then show ?thesis by (simp add: xs ewm_run_def ewm_weighted_mean_def)
  next
    case (Suc j)
    with assms(2) xs have j: "j < length rest" by simp
    have "ewm_run alpha (map Fin xs) ! t = ewm_loop alpha (Fin (x / 1)) 1 (map Fin rest) ! j"
      by (simp add: xs Suc ewm_run_def del: ewm_loop.simps)
    also have "\<dots> = Fin (((1 - alpha) ^ Suc j * x + (\<Sum>i\<le>j. (1 - alpha) ^ i * rest ! (j - i)))
          / ((1 - alpha) ^ Suc j * 1 + (\<Sum>i\<le>j. (1 - alpha) ^ i)))"
      by (rule ewm_loop_Fin [OF assms(1) _ j]) simp
    also have "(1 - alpha) ^ Suc j * x + (\<Sum>i\<le>j. (1 - alpha) ^ i * rest ! (j - i))
          = (\<Sum>i\<le>Suc j. (1 - alpha) ^ i * (x # rest) ! (Suc j - i))"
      by (simp only: shifted_sum)
    also have "(1 - alpha) ^ Suc j * 1 + (\<Sum>i\<le>j. (1 - alpha) ^ i) = (\<Sum>i\<le>Suc j. (1 - alpha) ^ i)"
      by simp
    finally show ?thesis unfolding ewm_weighted_mean_def xs Suc .
  qed
qed

lemma ewm_run_list:
  assumes "0 \<le> 1 - alpha"
  shows "ewm_run alpha (map Fin xs) = map Fin (map (ewm_weighted_mean alpha xs) [0..<length xs])"
  by (intro nth_equalityI) (simp_all add: ewm_run_Fin [OF assms])

lemma span_alpha_range: "1 \<le> n \<Longrightarrow> 0 \<le> 1 - span_alpha n"
  by (simp add: span_alpha_def)

lemma map2_fsub_Fin: "map2 fsub (map Fin xs) (map Fin ys) = map Fin (map2 (-) xs ys)"
  by (intro nth_equalityI) simp_all

lemma calculate_macd_result:
  assumes "cols (h ! data0) ''Close'' = Some c"
    and "1 \<le> fast" and "1 \<le> slow" and "1 \<le> sig_span"
  shows "calculate_macd self h data0 fast slow sig_span =
    Inr (length h, h @ [(h ! data0)\<lparr>cols := (cols (h ! data0))
      (''EMA_fast'' \<mapsto> ewm_run (span_alpha fast) c,
       ''EMA_slow'' \<mapsto> ewm_run (span_alpha slow) c,
       ''MACD'' \<mapsto> map2 fsub (ewm_run (span_alpha fast) c) (ewm_run (span_alpha slow) c),
       ''Signal_line'' \<mapsto> ewm_run (span_alpha sig_span)
          (map2 fsub (ewm_run (span_alpha fast) c) (ewm_run (span_alpha slow) c)),
       ''MACD_hist'' \<mapsto> map2 fsub
          (map2 fsub (ewm_run (span_alpha fast) c) (ewm_run (span_alpha slow) c))
          (ewm_run (span_alpha sig_span)
             (map2 fsub (ewm_run (span_alpha fast) c) (ewm_run (span_alpha slow) c))))\<rparr>])"
  using assms by (simp add: calculate_macd_def store_defs ewm_mean_def)

text \<open>
  Claim C4, as the code has it. For spans of at least 1, \<open>calculate_macd\<close> returns, every
  column it adds holds a number at every bar (no leading gap), and with
  \<open>alpha = 2 / (span + 1)\<close>: \<open>EMA[0] = Close[0]\<close>, and at every bar \<open>EMA[t]\<close> is the weighted
  mean of \<open>Close[t], Close[t-1], ..., Close[0]\<close> with the weights
  \<open>1, (1 - alpha), ..., (1 - alpha) ^ t\<close>, normalised by their sum (the adjusted form that
  pandas computes by default), not the recursion \<open>alpha * Close[t] + (1 - alpha) * EMA[t-1]\<close>;
  \<open>MACD = EMA_fast - EMA_slow\<close>, \<open>Signal_line\<close> is the same weighted mean of \<open>MACD\<close> with
  the signal span, and \<open>MACD_hist = MACD - Signal_line\<close>.
\<close>

theorem macd_uses_normalised_weights:
  assumes "cols (h ! data0) ''Close'' = Some (map Fin cs)"
    and "1 \<le> fast" and "1 \<le> slow" and "1 \<le> sig_span"
  shows "\<exists>d h1 ef es macd sl hist.
     calculate_macd self h data0 fast slow sig_span = Inr (d, h1) \<and>
     cols (h1 ! d) ''EMA_fast'' = Some (map Fin ef) \<and>
     cols (h1 ! d) ''EMA_slow'' = Some (map Fin es) \<and>
     cols (h1 ! d) ''MACD'' = Some (map Fin macd) \<and>
     cols (h1 ! d) ''Signal_line'' = Some (map Fin sl) \<and>
     cols (h1 ! d) ''MACD_hist'' = Some (map Fin hist) \<and>
     length ef = length cs \<and> length es = length cs \<and> length macd = length cs \<and>
     length sl = length cs \<and> length hist = length cs \<and>
     span_alpha fast = 2 / (real_of_int fast + 1) \<and>
     (\<forall>t<length cs.
        ef ! t = ewm_weighted_mean (span_alpha fast) cs t \<and>
        es ! t = ewm_weighted_mean (span_alpha slow) cs t \<and>
        macd ! t = ef ! t - es ! t \<and>
        sl ! t = ewm_weighted_mean (span_alpha sig_span) macd t \<and>
        hist ! t = macd ! t - sl ! t) \<and>
     (0 < length cs \<longrightarrow> ef ! 0 = cs ! 0 \<and> es ! 0 = cs ! 0 \<and> sl ! 0 = macd ! 0)"
proof -
  define n where "n = length cs"
  define ef where "ef = map (ewm_weighted_mean (span_alpha fast) cs) [0..<n]"
  define es where "es = map (ewm_weighted_mean (span_alpha slow) cs) [0..<n]"
  define macd where "macd = map2 (-) ef es"
  define sl where "sl = map (ewm_weighted_mean (span_alpha sig_span) macd) [0..<n]"
  define hist where "hist = map2 (-) macd sl"
  define h1 where "h1 = h @ [(h ! data0)\<lparr>cols := (cols (h ! data0))
      (''EMA_fast'' \<mapsto> map Fin ef, ''EMA_slow'' \<mapsto> map Fin es, ''MACD'' \<mapsto> map Fin macd,
       ''Signal_line'' \<mapsto> map Fin sl, ''MACD_hist'' \<mapsto> map Fin hist)\<rparr>]"
  have len: "length ef = length cs" "length es = length cs" "length macd = length cs"
    "length sl = length cs" "length hist = length cs"
    by (simp_all add: ef_def es_def macd_def sl_def hist_def n_def)
  have e1: "ewm_run (span_alpha fast) (map Fin cs) = map Fin ef"
    unfolding ef_def n_def by (rule ewm_run_list [OF span_alpha_range [OF assms(2)]])
  have e2: "ewm_run (span_alpha slow) (map Fin cs) = map Fin es"
    unfolding es_def n_def by (rule ewm_run_list [OF span_alpha_range [OF assms(3)]])
  have e3: "map2 fsub (map Fin ef) (map Fin es) = map Fin macd"
    unfolding macd_def by (rule map2_fsub_Fin)
  have "ewm_run (span_alpha sig_span) (map Fin macd)
          = map Fin (map (ewm_weighted_mean (span_alpha sig_span) macd) [0..<length macd])"
    by (rule ewm_run_list [OF span_alpha_range [OF assms(4)]])
  then have e4: "ewm_run (span_alpha sig_span) (map Fin macd) = map Fin sl"
    by (simp add: sl_def len n_def)
  have e5: "map2 fsub (map Fin macd) (map Fin sl) = map Fin hist"
    unfolding hist_def by (rule map2_fsub_Fin)
  have run: "calculate_macd self h data0 fast slow sig_span = Inr (length h, h1)"
    unfolding calculate_macd_result [OF assms] h1_def e1 e2 e3 e4 e5 ..
  have c: "cols (h1 ! length h) ''EMA_fast'' = Some (map Fin ef)"
    "cols (h1 ! length h) ''EMA_slow'' = Some (map Fin es)"
    "cols (h1 ! length h) ''MACD'' = Some (map Fin macd)"
    "cols (h1 ! length h) ''Signal_line'' = Some (map Fin sl)"
    "cols (h1 ! length h) ''MACD_hist'' = Some (map Fin hist)"
    by (simp_all add: h1_def)
  have a: "span_alpha fast = 2 / (real_of_int fast + 1)" by (simp add: span_alpha_def)
  have bars: "\<forall>t<length cs.
        ef ! t = ewm_weighted_mean (span_alpha fast) cs t \<and>
        es ! t = ewm_weighted_mean (span_alpha slow) cs t \<and>
        macd ! t = ef ! t - es ! t \<and>
        sl ! t = ewm_weighted_mean (span_alpha sig_span) macd t \<and>
        hist ! t = macd ! t - sl ! t"
    using len by (simp add: ef_def es_def macd_def sl_def hist_def n_def)
  have first: "0 < length cs \<longrightarrow> ef ! 0 = cs ! 0 \<and> es ! 0 = cs ! 0 \<and> sl ! 0 = macd ! 0"
    by (simp add: ef_def es_def sl_def n_def ewm_weighted_mean_def)
  from run c len a bars first show ?thesis by (intro exI conjI)
qed

text \<open>
  On the prices 1, 2 with span 3 (\<open>alpha = 1/2\<close>) the second value of \<open>EMA_fast\<close> is 5/3; the
  recursion of the specification gives 3/2.
\<close>

theorem ema_is_not_recursive_counterexample:
  "table_col (calculate_macd ex_strategy [two_prices] 0 3 3 3) ''EMA_fast''
     = Some [Fin 1, Fin (5 / 3)] \<and>
   span_alpha 3 = 1 / 2 \<and> spec_ema (1 / 2) [1, 2] 1 = 3 / 2"
proof -
  have c: "cols ([two_prices] ! 0) ''Close'' = Some [Fin 1, Fin 2]"
    by (simp add: two_prices_def)
  have e: "ewm_run (span_alpha 3) [Fin 1, Fin 2] = [Fin 1, Fin (5 / 3)]"
    by (simp add: ewm_run_def span_alpha_def Let_def)
  have "table_col (calculate_macd ex_strategy [two_prices] 0 3 3 3) ''EMA_fast''
     = Some [Fin 1, Fin (5 / 3)]"
    unfolding calculate_macd_result [OF c, of 3 3 3 ex_strategy, simplified] e
    by (simp add: table_col_def)
  then show ?thesis by (simp add: span_alpha_def)
qed

theorem macd_uses_normalised_weights_witness:
  "cols ([ex_prices] ! 0) ''Close'' = Some (map Fin ex_close) \<and>
   (1::int) \<le> 12 \<and> (1::int) \<le> 26 \<and> (1::int) \<le> 9 \<and>
   (\<exists>ef. table_col (calculate_macd ex_strategy [ex_prices] 0 12 26 9) ''EMA_fast'' = Some ef \<and>
      ef ! 0 = Fin 100 \<and> ef ! 1 = Fin (1213 / 12))"
proof -
  have h1: "cols ([ex_prices] ! 0) ''Close'' = Some (map Fin ex_close)"
    by (simp add: ex_prices_def)
  have h2: "(1::int) \<le> 12" and h3: "(1::int) \<le> 26" and h4: "(1::int) \<le> 9" by simp_all
  obtain d h1' ef es macd sl hist where
    run: "calculate_macd ex_strategy [ex_prices] 0 12 26 9 = Inr (d, h1')"
    and c: "cols (h1' ! d) ''EMA_fast'' = Some (map Fin ef)"
    and len: "length ef = length ex_close"
    and bars: "\<forall>t<length ex_close.
        ef ! t = ewm_weighted_mean (span_alpha 12) ex_close t \<and>
        es ! t = ewm_weighted_mean (span_alpha 26) ex_close t \<and>
        macd ! t = ef ! t - es ! t \<and>
        sl ! t = ewm_weighted_mean (span_alpha 9) macd t \<and>
        hist ! t = macd ! t - sl ! t"
    using macd_uses_normalised_weights [OF h1 h2 h3 h4, of ex_strategy]
    by (elim exE conjE) (rule that)
  have n: "length ex_close = 5" by (simp add: ex_close_def)
  have "ef ! 0 = 100"
    using bars [rule_format, of 0] n by (simp add: ewm_weighted_mean_def ex_close_def)
  moreover have "ef ! 1 = 1213 / 12"
    using bars [rule_format, of 1] n
    by (simp add: ewm_weighted_mean_def ex_close_def span_alpha_def)
  ultimately have "map Fin ef ! 0 = Fin 100" "map Fin ef ! 1 = Fin (1213 / 12)"
    using len n by simp_all
  moreover have "table_col (calculate_macd ex_strategy [ex_prices] 0 12 26 9) ''EMA_fast''
      = Some (map Fin ef)"
    using run c by (simp add: table_col_def)
  ultimately show ?thesis using h1 h2 h3 h4 by blast
qed

section \<open>The examples, stage by stage\<close>

text \<open>
  The example tables are what the stages make of the example prices: the moving averages
  of each series, and the signals of the series whose averages tie.
\<close>

lemma ex_prices_moving_averages:
  "table_col (calculate_moving_averages ex_strategy [ex_prices] 0) ''SMA_short''
     = Some ex_sma_short"
  "table_col (calculate_moving_averages ex_strategy [ex_prices] 0) ''SMA_long''
     = Some ex_sma_long"
  by (simp_all add: ex_prices_averages table_col_def ex_close_def ex_sma_short_def
      ex_sma_long_def column_eval)

lemma cross_prices_moving_averages:
  "table_col (calculate_moving_averages cross_strategy [cross_prices] 0) ''SMA_short''
     = Some cross_sma_short"
  "table_col (calculate_moving_averages cross_strategy [cross_prices] 0) ''SMA_long''
     = Some cross_sma_long"
  by (simp_all add: calculate_moving_averages_def store_defs table_col_def cross_strategy_def
      cross_prices_def cross_sma_short_def cross_sma_long_def column_eval)

lemma tie_prices_moving_averages:
  "table_col (calculate_moving_averages tie_strategy [tie_prices] 0) ''SMA_short''
     = cols tie_indicators ''SMA_short''"
  "table_col (calculate_moving_averages tie_strategy [tie_prices] 0) ''SMA_long''
     = cols tie_indicators ''SMA_long''"
  by (simp_all add: calculate_moving_averages_def store_defs table_col_def tie_strategy_def
      tie_prices_def tie_indicators_def column_eval)

lemma tie_indicators_signals:
  "signals_col (generate_signals tie_strategy [tie_indicators] 0) ''Signal''
     = cols tie_signals ''Signal''"
  "signals_col (generate_signals tie_strategy [tie_indicators] 0) ''Position''
     = cols tie_signals ''Position''"
proof -
  have c: "cols ([tie_indicators] ! 0) ''SMA_short'' = Some [Fin 1, Fin 3, Fin 2]"
    "cols ([tie_indicators] ! 0) ''SMA_long'' = Some [Fin 1, Fin 3, Fin 2]"
    "length [Fin 1, Fin 3, Fin 2] = nrows ([tie_indicators] ! 0)"
    by (simp_all add: tie_indicators_def)
  have sg: "map2 signal_at [Fin 1, Fin 3, Fin 2] [Fin 1, Fin 3, Fin 2]
      = [Fin (- 1), Fin (- 1), Fin (- 1)]"
    by (simp add: signal_at_def fle_def)
  have ps: "diff_col [Fin (- 1), Fin (- 1), Fin (- 1)] = [NaN, Fin 0, Fin 0]"
    by (simp add: diff_col_def shift1_def fsub_def)
  show "signals_col (generate_signals tie_strategy [tie_indicators] 0) ''Signal''
     = cols tie_signals ''Signal''"
    unfolding generate_signals_result [OF c(1,2,3,3)] sg ps
    by (simp add: signals_col_def tie_signals_def)
  show "signals_col (generate_signals tie_strategy [tie_indicators] 0) ''Position''
     = cols tie_signals ''Position''"
    unfolding generate_signals_result [OF c(1,2,3,3)] sg ps
    by (simp add: signals_col_def tie_signals_def)
qed

lemma ex_indicators_signal_columns:
  "signals_col (generate_signals ex_strategy [ex_indicators] 0) ''Signal''
     = cols ex_signals ''Signal''"
  "signals_col (generate_signals ex_strategy [ex_indicators] 0) ''Position''
     = cols ex_signals ''Position''"
  by (simp_all add: ex_indicators_signals signals_col_def ex_signals_def ex_signal_def)

end
